theory Spec2Isabelle
  imports Complex_Main
begin

section \<open>Numbers\<close>

text \<open>
  The program computes with JavaScript numbers. A finite number is modelled by a
  \<^typ>\<open>real\<close>: rounding inside the range of the doubles is idealised away, and zero has no
  sign (none of the divisors below can be a negative zero). The three values that are not
  finite get constructors of their own, because the program can produce them from finite
  inputs, by a division by zero or by an overflow, and they then flow through the
  arithmetic, the comparisons and \<^verbatim>\<open>Math.max\<close>, \<^verbatim>\<open>Math.min\<close>, \<^verbatim>\<open>Math.round\<close>,
  \<^verbatim>\<open>Math.floor\<close>, \<^verbatim>\<open>Math.sin\<close>, \<^verbatim>\<open>Math.cos\<close> as IEEE 754 and the language prescribe.

  There are two families of operations. \<open>jadd\<close>, \<open>jsub\<close>, \<open>jmul\<close>, \<open>jdiv\<close> are exact on
  finite operands; they serve the mask and colour code, whose operands are thresholds,
  gradients, channels and contrasts. \<open>oadd\<close>, \<open>osub\<close>, \<open>omul\<close>, \<open>odiv\<close> also overflow:
  a finite operation whose result leaves the range of the doubles gives an infinity. They
  serve the noise code and the pixel coordinates, whose operands are coordinates, scales and
  seeds of any size.
\<close>

datatype jsnum = Num real | PInf | NInf | NaN

fun is_finite :: "jsnum \<Rightarrow> bool" where
  "is_finite (Num a) = True"
| "is_finite PInf = False"
| "is_finite NInf = False"
| "is_finite NaN = False"

text \<open>An infinity times a finite factor of sign \<open>s\<close>; infinity times zero is \<^verbatim>\<open>NaN\<close>.\<close>

definition inf_times :: "real \<Rightarrow> jsnum" where
  "inf_times s = (if 0 < s then PInf else if s < 0 then NInf else NaN)"

fun jneg :: "jsnum \<Rightarrow> jsnum" where
  "jneg (Num a) = Num (- a)"
| "jneg PInf = NInf"
| "jneg NInf = PInf"
| "jneg NaN = NaN"

fun jadd :: "jsnum \<Rightarrow> jsnum \<Rightarrow> jsnum" where
  "jadd (Num a) (Num c) = Num (a + c)"
| "jadd NaN _ = NaN"
| "jadd _ NaN = NaN"
| "jadd PInf NInf = NaN"
| "jadd NInf PInf = NaN"
| "jadd PInf _ = PInf"
| "jadd _ PInf = PInf"
| "jadd NInf _ = NInf"
| "jadd _ NInf = NInf"

definition jsub :: "jsnum \<Rightarrow> jsnum \<Rightarrow> jsnum" where
  "jsub a c = jadd a (jneg c)"

fun jmul :: "jsnum \<Rightarrow> jsnum \<Rightarrow> jsnum" where
  "jmul (Num a) (Num c) = Num (a * c)"
| "jmul NaN _ = NaN"
| "jmul _ NaN = NaN"
| "jmul PInf (Num c) = inf_times c"
| "jmul (Num a) PInf = inf_times a"
| "jmul NInf (Num c) = inf_times (- c)"
| "jmul (Num a) NInf = inf_times (- a)"
| "jmul PInf PInf = PInf"
| "jmul NInf NInf = PInf"
| "jmul PInf NInf = NInf"
| "jmul NInf PInf = NInf"

text \<open>\<^verbatim>\<open>a / c\<close> on finite numbers: a zero divisor gives \<^verbatim>\<open>NaN\<close> or an infinity.\<close>

definition js_div :: "real \<Rightarrow> real \<Rightarrow> jsnum" where
  "js_div a c = (if c \<noteq> 0 then Num (a / c) else inf_times a)"

fun jdiv :: "jsnum \<Rightarrow> jsnum \<Rightarrow> jsnum" where
  "jdiv (Num a) (Num c) = js_div a c"
| "jdiv NaN _ = NaN"
| "jdiv _ NaN = NaN"
| "jdiv (Num a) _ = Num 0"
| "jdiv PInf (Num c) = (if 0 \<le> c then PInf else NInf)"
| "jdiv NInf (Num c) = (if 0 \<le> c then NInf else PInf)"
| "jdiv _ _ = NaN"

text \<open>The comparisons: each one is false as soon as an operand is \<^verbatim>\<open>NaN\<close>.\<close>

fun js_le :: "jsnum \<Rightarrow> jsnum \<Rightarrow> bool" where
  "js_le (Num a) (Num c) = (a \<le> c)"
| "js_le NaN _ = False"
| "js_le _ NaN = False"
| "js_le NInf _ = True"
| "js_le _ PInf = True"
| "js_le _ _ = False"

fun js_gt :: "jsnum \<Rightarrow> jsnum \<Rightarrow> bool" where
  "js_gt (Num a) (Num c) = (c < a)"
| "js_gt NaN _ = False"
| "js_gt _ NaN = False"
| "js_gt PInf PInf = False"
| "js_gt NInf NInf = False"
| "js_gt PInf _ = True"
| "js_gt _ NInf = True"
| "js_gt _ _ = False"

text \<open>\<^verbatim>\<open>Math.max\<close>, \<^verbatim>\<open>Math.min\<close>, \<^verbatim>\<open>Math.abs\<close>; \<^verbatim>\<open>Math.round\<close> rounds a half towards
  \<open>+\<infinity>\<close>.\<close>

fun jmax :: "jsnum \<Rightarrow> jsnum \<Rightarrow> jsnum" where
  "jmax (Num a) (Num c) = Num (max a c)"
| "jmax NaN _ = NaN"
| "jmax _ NaN = NaN"
| "jmax PInf _ = PInf"
| "jmax _ PInf = PInf"
| "jmax NInf c = c"
| "jmax a NInf = a"

fun jmin :: "jsnum \<Rightarrow> jsnum \<Rightarrow> jsnum" where
  "jmin (Num a) (Num c) = Num (min a c)"
| "jmin NaN _ = NaN"
| "jmin _ NaN = NaN"
| "jmin NInf _ = NInf"
| "jmin _ NInf = NInf"
| "jmin PInf c = c"
| "jmin a PInf = a"

fun jabs :: "jsnum \<Rightarrow> jsnum" where
  "jabs (Num a) = Num \<bar>a\<bar>"
| "jabs PInf = PInf"
| "jabs NInf = PInf"
| "jabs NaN = NaN"

fun math_round :: "jsnum \<Rightarrow> jsnum" where
  "math_round (Num a) = Num (of_int \<lfloor>a + 1 / 2\<rfloor>)"
| "math_round PInf = PInf"
| "math_round NInf = NInf"
| "math_round NaN = NaN"

fun jfloor :: "jsnum \<Rightarrow> jsnum" where
  "jfloor (Num a) = Num (of_int \<lfloor>a\<rfloor>)"
| "jfloor PInf = PInf"
| "jfloor NInf = NInf"
| "jfloor NaN = NaN"

text \<open>\<^verbatim>\<open>Math.sin\<close> and \<^verbatim>\<open>Math.cos\<close> of an infinity are \<^verbatim>\<open>NaN\<close>.\<close>

fun jsin :: "jsnum \<Rightarrow> jsnum" where
  "jsin (Num a) = Num (sin a)"
| "jsin PInf = NaN"
| "jsin NInf = NaN"
| "jsin NaN = NaN"

fun jcos :: "jsnum \<Rightarrow> jsnum" where
  "jcos (Num a) = Num (cos a)"
| "jcos PInf = NaN"
| "jcos NInf = NaN"
| "jcos NaN = NaN"

text \<open>
  Overflow. The largest double is \<open>2 ^ 1024 - 2 ^ 971\<close>; a result whose magnitude reaches
  \<open>2 ^ 1024 - 2 ^ 970\<close>, half a step above it, is rounded to an infinity.
\<close>

definition overflowAt :: real where
  "overflowAt = 2 ^ 1024 - 2 ^ 970"

definition fl :: "real \<Rightarrow> jsnum" where
  "fl a = (if overflowAt \<le> a then PInf else if a \<le> - overflowAt then NInf else Num a)"

fun ovf :: "jsnum \<Rightarrow> jsnum" where
  "ovf (Num a) = fl a"
| "ovf PInf = PInf"
| "ovf NInf = NInf"
| "ovf NaN = NaN"

definition oadd :: "jsnum \<Rightarrow> jsnum \<Rightarrow> jsnum" where
  "oadd a c = ovf (jadd a c)"

definition osub :: "jsnum \<Rightarrow> jsnum \<Rightarrow> jsnum" where
  "osub a c = ovf (jsub a c)"

definition omul :: "jsnum \<Rightarrow> jsnum \<Rightarrow> jsnum" where
  "omul a c = ovf (jmul a c)"

definition odiv :: "jsnum \<Rightarrow> jsnum \<Rightarrow> jsnum" where
  "odiv a c = ovf (jdiv a c)"

text \<open>
  A store into the \<^verbatim>\<open>Uint8ClampedArray\<close> of an \<^verbatim>\<open>ImageData\<close>: clamp to \<open>[0, 255]\<close>, round
  to the nearest integer with a half going to the even neighbour, \<^verbatim>\<open>NaN\<close> becomes 0.
\<close>

fun toUint8Clamp :: "jsnum \<Rightarrow> nat" where
  "toUint8Clamp (Num a) =
     (if a \<le> 0 then 0
      else if 255 \<le> a then 255
      else let f = \<lfloor>a\<rfloor>; d = a - of_int f
           in nat (if d < 1 / 2 then f
                   else if 1 / 2 < d then f + 1
                   else if even f then f else f + 1))"
| "toUint8Clamp PInf = 255"
| "toUint8Clamp NInf = 0"
| "toUint8Clamp NaN = 0"

section \<open>config.js: the configuration\<close>

text \<open>
  The fields of the global \<^verbatim>\<open>config\<close> object that the noise, mask, colour and drawing code
  reads (\<^verbatim>\<open>speed\<close> and \<^verbatim>\<open>currentPreset\<close> belong to the animation loop and the panel). The
  functions that read it take it as their first argument. Width and height are whole
  numbers of pixels; the seed may be any number, finite or not. A parameter that the source
  calls \<^verbatim>\<open>seed\<close> is written \<open>sd\<close>, the parameter \<^verbatim>\<open>value\<close> is written \<open>v\<close>.
\<close>

record colorStop =
  threshold :: real
  color :: string

record config =
  width :: int
  height :: int
  scale :: real
  seed :: jsnum
  time :: real
  grayscale :: bool
  octaves :: bool
  smoothing :: bool
  shading :: bool
  mask :: bool
  maskShape :: string
  maskContrast :: real
  thresholds :: "colorStop list"

section \<open>utils.js\<close>

text \<open>
  The numeric helpers, operation by operation in the order JavaScript evaluates them. The
  suffix \<open>J\<close> marks a function on JavaScript numbers.
\<close>

definition fractJ :: "jsnum \<Rightarrow> jsnum" where
  "fractJ x = osub x (jfloor x)"

definition pseudoRandomJ :: "jsnum \<Rightarrow> jsnum \<Rightarrow> jsnum \<Rightarrow> jsnum" where
  "pseudoRandomJ x y sd =
     (let dot = oadd (oadd (omul x (Num 127.1)) (omul y (Num 311.7))) (omul sd (Num 9999))
      in fractJ (omul (jsin dot) (Num 43758.5453123)))"

definition fadeJ :: "jsnum \<Rightarrow> jsnum" where
  "fadeJ t =
     omul (omul (omul t t) t) (oadd (omul t (osub (omul t (Num 6)) (Num 15))) (Num 10))"

definition lerpJ :: "jsnum \<Rightarrow> jsnum \<Rightarrow> jsnum \<Rightarrow> jsnum" where
  "lerpJ a c t = oadd a (omul t (osub c a))"

record rgb =
  r :: jsnum
  g :: jsnum
  b :: jsnum

text \<open>One character of the class \<^verbatim>\<open>[a-f\d]\<close> under the flag \<^verbatim>\<open>i\<close>, with its value.\<close>

definition hexDigit :: "char \<Rightarrow> nat option" where
  "hexDigit ch =
     (let n = (of_char ch :: nat)
      in if 48 \<le> n \<and> n \<le> 57 then Some (n - 48)
         else if 97 \<le> n \<and> n \<le> 102 then Some (n - 87)
         else if 65 \<le> n \<and> n \<le> 70 then Some (n - 55)
         else None)"

text \<open>\<^verbatim>\<open>parseInt(s, 16)\<close> on a group of two characters.\<close>

definition hexPair :: "char \<Rightarrow> char \<Rightarrow> nat option" where
  "hexPair hi lo =
     (case (hexDigit hi, hexDigit lo) of
        (Some h, Some l) \<Rightarrow> Some (16 * h + l)
      | _ \<Rightarrow> None)"

text \<open>
  The pattern \<^verbatim>\<open>/^#?([a-f\d]{2})([a-f\d]{2})([a-f\d]{2})$/i\<close>: an optional \<^verbatim>\<open>#\<close>, then exactly
  six hexadecimal digits; any other string gives black.
\<close>

definition hexToRgb :: "string \<Rightarrow> rgb" where
  "hexToRgb hex =
     (let body = (case hex of ch # rest \<Rightarrow> if ch = CHR ''#'' then rest else hex | [] \<Rightarrow> hex);
          black = \<lparr>r = Num 0, g = Num 0, b = Num 0\<rparr>
      in case body of
           [r1, r2, g1, g2, b1, b2] \<Rightarrow>
             (case (hexPair r1 r2, hexPair g1 g2, hexPair b1 b2) of
                (Some rv, Some gv, Some bv) \<Rightarrow>
                  \<lparr>r = Num (real rv), g = Num (real gv), b = Num (real bv)\<rparr>
              | _ \<Rightarrow> black)
         | _ \<Rightarrow> black)"

definition interpolateColors :: "string \<Rightarrow> string \<Rightarrow> jsnum \<Rightarrow> rgb" where
  "interpolateColors c1 c2 t =
     (let a = hexToRgb c1;
          c = hexToRgb c2
      in \<lparr>r = math_round (lerpJ (r a) (r c) t),
          g = math_round (lerpJ (g a) (g c) t),
          b = math_round (lerpJ (b a) (b c) t)\<rparr>)"

section \<open>perlin.js\<close>

definition randomGradientJ :: "jsnum \<Rightarrow> jsnum \<Rightarrow> jsnum \<Rightarrow> jsnum \<times> jsnum" where
  "randomGradientJ ix iy sd =
     (let angle = omul (omul (pseudoRandomJ ix iy sd) (Num 2)) (Num pi)
      in (jcos angle, jsin angle))"

definition dotGridGradientJ :: "jsnum \<Rightarrow> jsnum \<Rightarrow> jsnum \<Rightarrow> jsnum \<Rightarrow> jsnum \<Rightarrow> jsnum" where
  "dotGridGradientJ ix iy x y sd =
     (let grad = randomGradientJ ix iy sd;
          dx = osub x ix;
          dy = osub y iy
      in oadd (omul dx (fst grad)) (omul dy (snd grad)))"

definition rawPerlinJ :: "jsnum \<Rightarrow> jsnum \<Rightarrow> jsnum \<Rightarrow> jsnum" where
  "rawPerlinJ x y sd =
     (let x0 = jfloor x; x1 = oadd x0 (Num 1);
          y0 = jfloor y; y1 = oadd y0 (Num 1);
          sx = osub x x0; sy = osub y y0;
          u = fadeJ sx; v = fadeJ sy;
          n00 = dotGridGradientJ x0 y0 x y sd;
          n10 = dotGridGradientJ x1 y0 x y sd;
          n01 = dotGridGradientJ x0 y1 x y sd;
          n11 = dotGridGradientJ x1 y1 x y sd
      in lerpJ (lerpJ n00 n10 u) (lerpJ n01 n11 u) v)"

text \<open>
  The octave loop of \<^verbatim>\<open>perlin\<close>. The loop state is
  \<open>(tot, frequency, amplitude, maxValue)\<close>, where \<open>tot\<close> is the source's \<^verbatim>\<open>total\<close>;
  the first argument counts the iterations that remain.
\<close>

fun octaveLoopJ :: "nat \<Rightarrow> jsnum \<Rightarrow> jsnum \<Rightarrow> jsnum \<Rightarrow> jsnum \<times> jsnum \<times> jsnum \<times> jsnum
    \<Rightarrow> jsnum \<times> jsnum \<times> jsnum \<times> jsnum" where
  "octaveLoopJ 0 x y sd st = st"
| "octaveLoopJ (Suc n) x y sd (tot, frequency, amplitude, maxValue) =
     octaveLoopJ n x y sd
       (oadd tot (omul (rawPerlinJ (omul x frequency) (omul y frequency) sd) amplitude),
        omul frequency (Num 2),
        omul amplitude (Num 0.5),
        oadd maxValue amplitude)"

definition octaveCount :: "config \<Rightarrow> nat" where
  "octaveCount cfg = (if octaves cfg then 4 else 1)"

definition perlinJ :: "config \<Rightarrow> jsnum \<Rightarrow> jsnum \<Rightarrow> jsnum \<Rightarrow> jsnum" where
  "perlinJ cfg x y sd =
     (case octaveLoopJ (octaveCount cfg) x y sd (Num 0, Num 1, Num 1, Num 0) of
        (tot, frequency, amplitude, maxValue) \<Rightarrow> odiv tot maxValue)"

section \<open>The noise in exact arithmetic\<close>

text \<open>
  The same functions of \<^verbatim>\<open>utils.js\<close> and \<^verbatim>\<open>perlin.js\<close> over the reals, for finite
  arguments and with no overflow: the values the functions above take as long as every
  intermediate result stays in the range of the doubles (\<open>rawPerlinJ_exact\<close> and
  \<open>perlinJ_exact\<close> below). The lattice corners are integers here.
\<close>

definition fract :: "real \<Rightarrow> real" where
  "fract x = x - of_int \<lfloor>x\<rfloor>"

definition pseudoRandom :: "real \<Rightarrow> real \<Rightarrow> real \<Rightarrow> real" where
  "pseudoRandom x y sd =
     (let dot = x * 127.1 + y * 311.7 + sd * 9999
      in fract (sin dot * 43758.5453123))"

definition fade :: "real \<Rightarrow> real" where
  "fade t = t * t * t * (t * (t * 6 - 15) + 10)"

definition lerp :: "real \<Rightarrow> real \<Rightarrow> real \<Rightarrow> real" where
  "lerp a c t = a + t * (c - a)"

definition randomGradient :: "int \<Rightarrow> int \<Rightarrow> real \<Rightarrow> real \<times> real" where
  "randomGradient ix iy sd =
     (let angle = pseudoRandom (of_int ix) (of_int iy) sd * 2 * pi
      in (cos angle, sin angle))"

definition dotGridGradient :: "int \<Rightarrow> int \<Rightarrow> real \<Rightarrow> real \<Rightarrow> real \<Rightarrow> real" where
  "dotGridGradient ix iy x y sd =
     (let grad = randomGradient ix iy sd;
          dx = x - of_int ix;
          dy = y - of_int iy
      in dx * fst grad + dy * snd grad)"

definition rawPerlin :: "real \<Rightarrow> real \<Rightarrow> real \<Rightarrow> real" where
  "rawPerlin x y sd =
     (let x0 = \<lfloor>x\<rfloor>; x1 = x0 + 1;
          y0 = \<lfloor>y\<rfloor>; y1 = y0 + 1;
          sx = x - of_int x0; sy = y - of_int y0;
          u = fade sx; v = fade sy;
          n00 = dotGridGradient x0 y0 x y sd;
          n10 = dotGridGradient x1 y0 x y sd;
          n01 = dotGridGradient x0 y1 x y sd;
          n11 = dotGridGradient x1 y1 x y sd
      in lerp (lerp n00 n10 u) (lerp n01 n11 u) v)"

fun octaveLoop :: "nat \<Rightarrow> real \<Rightarrow> real \<Rightarrow> real \<Rightarrow> real \<times> real \<times> real \<times> real
    \<Rightarrow> real \<times> real \<times> real \<times> real" where
  "octaveLoop 0 x y sd st = st"
| "octaveLoop (Suc n) x y sd (tot, frequency, amplitude, maxValue) =
     octaveLoop n x y sd
       (tot + rawPerlin (x * frequency) (y * frequency) sd * amplitude,
        frequency * 2,
        amplitude * 0.5,
        maxValue + amplitude)"

definition perlin :: "config \<Rightarrow> real \<Rightarrow> real \<Rightarrow> real \<Rightarrow> real" where
  "perlin cfg x y sd =
     (case octaveLoop (octaveCount cfg) x y sd (0, 1, 1, 0) of
        (tot, frequency, amplitude, maxValue) \<Rightarrow> tot / maxValue)"

section \<open>renderer.js\<close>

text \<open>
  The scan of \<^verbatim>\<open>getColorForValue\<close> from index \<open>i\<close> on. The ratio is written with
  the exact operations: for thresholds between 0 and 1 its two subtractions and its
  division stay far from overflow (\<open>ratio_in_range\<close> below).
\<close>

function colorScan :: "config \<Rightarrow> jsnum \<Rightarrow> nat \<Rightarrow> rgb" where
  "colorScan cfg v i =
     (if i < length (thresholds cfg) then
        (let t = thresholds cfg ! i
         in if js_le v (Num (threshold t)) then
              (if smoothing cfg \<and> 0 < i then
                 (let prev = thresholds cfg ! (i - 1);
                      ratio = jdiv (jsub v (Num (threshold prev)))
                                   (Num (threshold t - threshold prev))
                  in interpolateColors (color prev) (color t) ratio)
               else hexToRgb (color t))
            else colorScan cfg v (i + 1))
      else hexToRgb ''#ffffff'')"
  by pat_completeness auto
termination
  by (relation "measure (\<lambda>(cfg, v, i). length (thresholds cfg) - i)") auto

definition getColorForValue :: "config \<Rightarrow> jsnum \<Rightarrow> rgb" where
  "getColorForValue cfg v = colorScan cfg v 0"

text \<open>
  The distance fields of \<^verbatim>\<open>applyMask\<close>, one per shape: the value of the local
  \<^verbatim>\<open>circleGrad\<close>, \<^verbatim>\<open>squareGrad\<close>, \<^verbatim>\<open>hexGrad\<close> at the point where the source tests it.
\<close>

definition centerDist :: "config \<Rightarrow> real \<Rightarrow> real \<Rightarrow> real" where
  "centerDist cfg x y =
     (let cx = real_of_int (width cfg) / 2;
          cy = real_of_int (height cfg) / 2;
          distx = \<bar>x - cx\<bar>;
          disty = \<bar>y - cy\<bar>
      in sqrt (distx * distx + disty * disty))"

definition maxGrad :: "config \<Rightarrow> real" where
  "maxGrad cfg =
     (let cx = real_of_int (width cfg) / 2;
          cy = real_of_int (height cfg) / 2
      in sqrt (cx * cx + cy * cy))"

definition circleGrad :: "config \<Rightarrow> real \<Rightarrow> real \<Rightarrow> jsnum" where
  "circleGrad cfg x y =
     (let grad = js_div (centerDist cfg x y) (maxGrad cfg);
          grad = jsub grad (Num 0.5);
          grad = jmul grad (Num 2.0)
      in jneg grad)"

definition squareGrad :: "config \<Rightarrow> real \<Rightarrow> real \<Rightarrow> jsnum" where
  "squareGrad cfg x y =
     (let cx = real_of_int (width cfg) / 2;
          cy = real_of_int (height cfg) / 2;
          dx = js_div \<bar>x - cx\<bar> cx;
          dy = js_div \<bar>y - cy\<bar> cy;
          squareDist = jmax dx dy;
          grad = jsub (Num 1) squareDist
      in jmax (Num 0) grad)"

definition hexGrad :: "config \<Rightarrow> real \<Rightarrow> real \<Rightarrow> jsnum" where
  "hexGrad cfg x y =
     (let cx = real_of_int (width cfg) / 2;
          cy = real_of_int (height cfg) / 2;
          dx = js_div \<bar>x - cx\<bar> cx;
          dy = js_div \<bar>y - cy\<bar> cy;
          qx = jabs dx;
          qy = jabs dy;
          hexDist = jmax qx (jadd (jmul qy (Num 0.866)) (jmul qx (Num 0.5)));
          grad = jsub (Num 1) hexDist
      in jmax (Num 0) grad)"

text \<open>
  What the three branches share once the gradient is positive: the product, the contrast
  when the product is positive, the clamp. \<open>k\<close> is \<^verbatim>\<open>config.maskContrast\<close> in the circle
  branch and \<^verbatim>\<open>config.maskContrast * 0.75\<close> in the other two.
\<close>

definition maskedBy :: "jsnum \<Rightarrow> jsnum \<Rightarrow> real \<Rightarrow> jsnum" where
  "maskedBy v grad k =
     (let maskedValue = jmul v grad;
          maskedValue = (if js_gt maskedValue (Num 0) then jmul maskedValue (Num k)
                         else maskedValue)
      in jmax (Num 0) (jmin (Num 1) maskedValue))"

definition applyMask :: "config \<Rightarrow> real \<Rightarrow> real \<Rightarrow> jsnum \<Rightarrow> jsnum" where
  "applyMask cfg x y v =
     (if \<not> mask cfg then v
      else if maskShape cfg = ''circle'' then
        (if js_gt (circleGrad cfg x y) (Num 0)
         then maskedBy v (circleGrad cfg x y) (maskContrast cfg)
         else Num 0)
      else if maskShape cfg = ''square'' then
        (if js_gt (squareGrad cfg x y) (Num 0)
         then maskedBy v (squareGrad cfg x y) (maskContrast cfg * 0.75)
         else Num 0)
      else if maskShape cfg = ''hexagon'' then
        (if js_gt (hexGrad cfg x y) (Num 0)
         then maskedBy v (hexGrad cfg x y) (maskContrast cfg * 0.75)
         else Num 0)
      else v)"

text \<open>
  The body of the pixel loop of \<^verbatim>\<open>draw\<close>, in the order of the source: the normalised and
  masked value, the sample for the shading, the colour.
\<close>

definition drawValue :: "config \<Rightarrow> nat \<Rightarrow> nat \<Rightarrow> jsnum" where
  "drawValue cfg x y =
     (let nx = odiv (Num (real x)) (Num (scale cfg));
          ny = odiv (Num (real y)) (Num (scale cfg));
          v = jdiv (jadd (perlinJ cfg nx (oadd ny (Num (time cfg))) (seed cfg)) (Num 1)) (Num 2)
      in applyMask cfg (real x) (real y) v)"

definition drawNext :: "config \<Rightarrow> nat \<Rightarrow> nat \<Rightarrow> jsnum" where
  "drawNext cfg x y =
     (let nx = odiv (Num (real x)) (Num (scale cfg));
          ny = odiv (Num (real y)) (Num (scale cfg))
      in jdiv (jadd (perlinJ cfg (oadd nx (Num 0.01)) (oadd ny (Num 0.01)) (seed cfg)) (Num 1))
              (Num 2))"

definition shadeChannel :: "jsnum \<Rightarrow> jsnum \<Rightarrow> jsnum" where
  "shadeChannel ch shade = jmin (Num 255) (jmax (Num 0) (jadd ch (jmul shade (Num 100))))"

definition drawColor :: "config \<Rightarrow> nat \<Rightarrow> nat \<Rightarrow> rgb" where
  "drawColor cfg x y =
     (let v = drawValue cfg x y;
          col = (if grayscale cfg
                 then \<lparr>r = jmul v (Num 255), g = jmul v (Num 255), b = jmul v (Num 255)\<rparr>
                 else getColorForValue cfg v)
      in if shading cfg then
           (let next = drawNext cfg x y;
                shade = jsub v next
            in \<lparr>r = shadeChannel (r col) shade,
                g = shadeChannel (g col) shade,
                b = shadeChannel (b col) shade\<rparr>)
         else col)"

text \<open>The four bytes written at \<^verbatim>\<open>idx = (y * canvas.width + x) * 4\<close>.\<close>

definition drawPixel :: "config \<Rightarrow> nat \<Rightarrow> nat \<Rightarrow> nat list" where
  "drawPixel cfg x y =
     (let col = drawColor cfg x y
      in [toUint8Clamp (r col), toUint8Clamp (g col), toUint8Clamp (b col), 255])"

text \<open>
  \<^verbatim>\<open>draw\<close>. The canvas is the browser's: \<open>cw\<close> and \<open>ch\<close> are what \<^verbatim>\<open>canvas.width\<close> and
  \<^verbatim>\<open>canvas.height\<close> hold after the two assignments at the head of \<^verbatim>\<open>draw\<close>, which is the
  width and the height of the configuration when these are positive. \<^verbatim>\<open>createImageData\<close>
  raises \<^verbatim>\<open>IndexSizeError\<close> when one of them is 0, and nothing in \<^verbatim>\<open>draw\<close> catches it;
  otherwise the result is the image data after the two loops, row by row.
\<close>

datatype domError = IndexSizeError

definition draw :: "config \<Rightarrow> nat \<Rightarrow> nat \<Rightarrow> domError + nat list" where
  "draw cfg cw ch =
     (if cw = 0 \<or> ch = 0 then Inl IndexSizeError
      else Inr (concat (map (\<lambda>y. concat (map (\<lambda>x. drawPixel cfg x y) [0 ..< cw]))
                            [0 ..< ch])))"

section \<open>exports.js\<close>

text \<open>
  The value \<^verbatim>\<open>exportMap\<close> computes for one pixel, and the grid of these values in the
  order of its two loops (the text it writes prints each value with three decimals).
\<close>

definition exportMapValue :: "config \<Rightarrow> nat \<Rightarrow> nat \<Rightarrow> jsnum" where
  "exportMapValue cfg x y =
     (let nx = odiv (Num (real x)) (Num (scale cfg));
          ny = odiv (Num (real y)) (Num (scale cfg));
          v = jdiv (jadd (perlinJ cfg nx (oadd ny (Num (time cfg))) (seed cfg)) (Num 1)) (Num 2)
      in applyMask cfg (real x) (real y) v)"

definition exportMap :: "config \<Rightarrow> jsnum list list" where
  "exportMap cfg =
     map (\<lambda>y. map (\<lambda>x. exportMapValue cfg x y) [0 ..< nat (width cfg)])
         [0 ..< nat (height cfg)]"

section \<open>The initial configuration\<close>

text \<open>
  The value of \<^verbatim>\<open>config\<close> when the page loads (\<^verbatim>\<open>config.js\<close>): the thresholds are a copy
  of those of the preset \<^verbatim>\<open>Island\<close>.
\<close>

definition islandThresholds :: "colorStop list" where
  "islandThresholds =
     [\<lparr>threshold = 0.0, color = ''#4169E1''\<rparr>,
      \<lparr>threshold = 0.02, color = ''#EED6AF''\<rparr>,
      \<lparr>threshold = 0.04, color = ''#D2B48C''\<rparr>,
      \<lparr>threshold = 0.15, color = ''#228B22''\<rparr>,
      \<lparr>threshold = 0.30, color = ''#006400''\<rparr>,
      \<lparr>threshold = 0.45, color = ''#8B8989''\<rparr>,
      \<lparr>threshold = 1.0, color = ''#FFFAFA''\<rparr>]"

definition initialConfig :: config where
  "initialConfig =
     \<lparr>width = 400, height = 400, scale = 50, seed = Num 0, time = 0,
      grayscale = False, octaves = True, smoothing = True, shading = True,
      mask = True, maskShape = ''circle'', maskContrast = 4.0,
      thresholds = islandThresholds\<rparr>"

declare colorScan.simps [simp del]

section \<open>Finite numbers in range\<close>

text \<open>
  An operation on finite operands whose exact result is below the overflow threshold in
  magnitude returns that result. The bound \<open>10 ^ 300\<close> leaves room for every constant the
  noise code multiplies by.
\<close>

lemma range_300: "200000 * (10::real) ^ 300 < overflowAt"
  by (simp add: overflowAt_def)

lemma overflow_305: "overflowAt \<le> 9999 * (10::real) ^ 305"
  by (simp add: overflowAt_def)

lemma one_le_300: "(1::real) \<le> 10 ^ 300"
  by (rule one_le_power) simp

lemma ten_le_300: "(10::real) \<le> 10 ^ 300"
proof -
  have "(10::real) ^ 1 \<le> 10 ^ 300"
    by (rule power_increasing) simp_all
  then show ?thesis
    by (simp only: power_one_right)
qed

lemma range_small: "(100000::real) < overflowAt"
  using range_300 one_le_300 by linarith

lemma range_below:
  assumes "B \<le> 10 ^ 300"
  shows "200000 * B < overflowAt"
  using range_300 assms by linarith

lemma fl_Num: "\<bar>a\<bar> < overflowAt \<Longrightarrow> fl a = Num a"
  by (auto simp add: fl_def)

lemma fl_PInf: "overflowAt \<le> a \<Longrightarrow> fl a = PInf"
  by (simp add: fl_def)

lemma oadd_Num: "\<bar>a + c\<bar> < overflowAt \<Longrightarrow> oadd (Num a) (Num c) = Num (a + c)"
  by (simp add: oadd_def fl_Num)

lemma osub_Num: "\<bar>a - c\<bar> < overflowAt \<Longrightarrow> osub (Num a) (Num c) = Num (a - c)"
  by (simp add: osub_def jsub_def fl_Num)

lemma omul_Num: "\<bar>a * c\<bar> < overflowAt \<Longrightarrow> omul (Num a) (Num c) = Num (a * c)"
  by (simp add: omul_def fl_Num)

lemma odiv_Num:
  "c \<noteq> 0 \<Longrightarrow> \<bar>a / c\<bar> < overflowAt \<Longrightarrow> odiv (Num a) (Num c) = Num (a / c)"
  by (simp add: odiv_def js_div_def fl_Num)

lemma small_in_range: "\<bar>a\<bar> \<le> 50000 \<Longrightarrow> \<bar>a\<bar> < overflowAt"
  using range_small by linarith

text \<open>\<^verbatim>\<open>NaN\<close> and the infinities through the operations.\<close>

lemma jadd_NaN: "jadd v NaN = NaN"
  by (cases v) simp_all

lemma jmul_NaN: "jmul v NaN = NaN"
  by (cases v) simp_all

lemma oadd_NaN: "oadd NaN c = NaN" "oadd a NaN = NaN"
  by (simp_all add: oadd_def jadd_NaN)

lemma osub_NaN: "osub NaN c = NaN" "osub a NaN = NaN"
  by (simp_all add: osub_def jsub_def jadd_NaN)

lemma omul_NaN: "omul NaN c = NaN" "omul a NaN = NaN"
  by (simp_all add: omul_def jmul_NaN)

lemma odiv_NaN: "odiv NaN c = NaN"
  by (simp add: odiv_def)

lemma oadd_not_finite_right: "\<not> is_finite c \<Longrightarrow> \<not> is_finite (oadd a c)"
  by (cases a; cases c) (simp_all add: oadd_def)

lemma oadd_not_finite_left: "\<not> is_finite a \<Longrightarrow> \<not> is_finite (oadd a c)"
  by (cases a; cases c) (simp_all add: oadd_def)

lemma osub_floor_not_finite: "\<not> is_finite x \<Longrightarrow> osub x (jfloor x) = NaN"
  by (cases x) (simp_all add: osub_def jsub_def)

lemma jsin_not_finite: "\<not> is_finite a \<Longrightarrow> jsin a = NaN"
  by (cases a) simp_all

lemma omul_pos_not_finite: "\<not> is_finite x \<Longrightarrow> 0 < k \<Longrightarrow> \<not> is_finite (omul x (Num k))"
  by (cases x) (simp_all add: omul_def inf_times_def)

lemma abs_mult_le:
  fixes a c :: real
  assumes "\<bar>a\<bar> \<le> A" "\<bar>c\<bar> \<le> C"
  shows "\<bar>a * c\<bar> \<le> A * C"
  unfolding abs_mult using assms by (intro mult_mono) simp_all

lemma seed_overflow: "omul (Num (10 ^ 305)) (Num 9999) = PInf"
proof -
  have "fl (10 ^ 305 * 9999) = PInf"
    by (rule fl_PInf) (use overflow_305 in \<open>simp only: mult.commute\<close>)
  then show ?thesis
    by (simp only: omul_def jmul.simps ovf.simps)
qed

section \<open>The helpers on finite numbers in range\<close>

lemma fadeJ_exact:
  assumes "0 \<le> t" "t \<le> 1"
  shows "fadeJ (Num t) = Num (fade t)"
proof -
  have t: "\<bar>t\<bar> \<le> 1" using assms by simp
  have tt: "\<bar>t * t\<bar> \<le> 1 * 1" by (rule abs_mult_le [OF t t])
  have ttt: "\<bar>t * t * t\<bar> \<le> 1 * 1 * 1" by (rule abs_mult_le [OF tt t])
  have t6: "\<bar>t * 6\<bar> \<le> 6" using t by simp
  have d: "\<bar>t * 6 - 15\<bar> \<le> 21" using t6 by linarith
  have td: "\<bar>t * (t * 6 - 15)\<bar> \<le> 1 * 21" by (rule abs_mult_le [OF t d])
  have s: "\<bar>t * (t * 6 - 15) + 10\<bar> \<le> 31" using td by linarith
  have p: "\<bar>t * t * t * (t * (t * 6 - 15) + 10)\<bar> \<le> 1 * 1 * 1 * 31"
    by (rule abs_mult_le [OF ttt s])
  have e1: "omul (Num t) (Num t) = Num (t * t)"
    by (rule omul_Num, rule small_in_range) (use tt in simp)
  have e2: "omul (Num (t * t)) (Num t) = Num (t * t * t)"
    by (rule omul_Num, rule small_in_range) (use ttt in simp)
  have e3: "omul (Num t) (Num 6) = Num (t * 6)"
    by (rule omul_Num, rule small_in_range) (use t6 in simp)
  have e4: "osub (Num (t * 6)) (Num 15) = Num (t * 6 - 15)"
    by (rule osub_Num, rule small_in_range) (use d in simp)
  have e5: "omul (Num t) (Num (t * 6 - 15)) = Num (t * (t * 6 - 15))"
    by (rule omul_Num, rule small_in_range) (use td in simp)
  have e6: "oadd (Num (t * (t * 6 - 15))) (Num 10) = Num (t * (t * 6 - 15) + 10)"
    by (rule oadd_Num, rule small_in_range) (use s in simp)
  have e7: "omul (Num (t * t * t)) (Num (t * (t * 6 - 15) + 10)) =
      Num (t * t * t * (t * (t * 6 - 15) + 10))"
    by (rule omul_Num, rule small_in_range) (use p in simp)
  show ?thesis
    unfolding fadeJ_def fade_def e1 e2 e3 e4 e5 e6 e7 ..
qed

lemma lerpJ_exact:
  assumes "\<bar>a\<bar> \<le> 1000" "\<bar>c\<bar> \<le> 1000" "\<bar>t\<bar> \<le> 1"
  shows "lerpJ (Num a) (Num c) (Num t) = Num (lerp a c t)"
proof -
  have d: "\<bar>c - a\<bar> \<le> 2000" using assms by linarith
  have m: "\<bar>t * (c - a)\<bar> \<le> 1 * 2000" by (rule abs_mult_le [OF assms(3) d])
  have s: "\<bar>a + t * (c - a)\<bar> \<le> 3000"
    using assms(1) m by linarith
  have e1: "osub (Num c) (Num a) = Num (c - a)"
    by (rule osub_Num, rule small_in_range) (use d in simp)
  have e2: "omul (Num t) (Num (c - a)) = Num (t * (c - a))"
    by (rule omul_Num, rule small_in_range) (use m in simp)
  have e3: "oadd (Num a) (Num (t * (c - a))) = Num (a + t * (c - a))"
    by (rule oadd_Num, rule small_in_range) (use s in simp)
  show ?thesis
    unfolding lerpJ_def lerp_def e1 e2 e3 ..
qed

lemma fractJ_exact: "fractJ (Num z) = Num (fract z)"
proof -
  have "\<bar>z - of_int \<lfloor>z\<rfloor>\<bar> \<le> 1" by linarith
  then have "osub (Num z) (Num (of_int \<lfloor>z\<rfloor>)) = Num (z - of_int \<lfloor>z\<rfloor>)"
    by (intro osub_Num small_in_range) simp
  then show ?thesis by (simp add: fractJ_def fract_def)
qed

lemma fract_range: "0 \<le> fract z" "fract z < 1"
  unfolding fract_def by linarith+

lemma pseudoRandomJ_exact:
  assumes "\<bar>x\<bar> \<le> B" "\<bar>y\<bar> \<le> B" "\<bar>sd\<bar> \<le> B" and hO: "11000 * B < overflowAt"
  shows "pseudoRandomJ (Num x) (Num y) (Num sd) = Num (pseudoRandom x y sd)"
proof -
  have bx: "\<bar>x * 127.1\<bar> \<le> B * 127.1" using assms(1) by simp
  have by': "\<bar>y * 311.7\<bar> \<le> B * 311.7" using assms(2) by simp
  have bs: "\<bar>sd * 9999\<bar> \<le> B * 9999" using assms(3) by simp
  have e1: "omul (Num x) (Num 127.1) = Num (x * 127.1)"
    by (rule omul_Num) (use bx hO in linarith)
  have e2: "omul (Num y) (Num 311.7) = Num (y * 311.7)"
    by (rule omul_Num) (use by' hO in linarith)
  have e3: "omul (Num sd) (Num 9999) = Num (sd * 9999)"
    by (rule omul_Num) (use bs hO in linarith)
  have e4: "oadd (Num (x * 127.1)) (Num (y * 311.7)) = Num (x * 127.1 + y * 311.7)"
    by (rule oadd_Num) (use bx by' hO in linarith)
  have e5: "oadd (Num (x * 127.1 + y * 311.7)) (Num (sd * 9999)) =
      Num (x * 127.1 + y * 311.7 + sd * 9999)"
    by (rule oadd_Num) (use bx by' bs hO in linarith)
  define dot where "dot = x * 127.1 + y * 311.7 + sd * 9999"
  have sn: "\<bar>sin dot\<bar> \<le> 1" by simp
  have bm: "\<bar>sin dot * 43758.5453123\<bar> \<le> 1 * 43758.5453123"
    by (rule abs_mult_le [OF sn]) simp
  have e6: "omul (Num (sin dot)) (Num 43758.5453123) = Num (sin dot * 43758.5453123)"
    by (rule omul_Num, rule small_in_range) (use bm in simp)
  show ?thesis
    unfolding pseudoRandomJ_def pseudoRandom_def Let_def e1 e2 e3 e4 e5
    unfolding dot_def [symmetric] jsin.simps e6 fractJ_exact ..
qed

lemma randomGradientJ_exact:
  assumes "\<bar>real_of_int i\<bar> \<le> B" "\<bar>real_of_int j\<bar> \<le> B" "\<bar>sd\<bar> \<le> B"
    and hO: "11000 * B < overflowAt"
  shows "randomGradientJ (Num (of_int i)) (Num (of_int j)) (Num sd) =
     (Num (fst (randomGradient i j sd)), Num (snd (randomGradient i j sd)))"
proof -
  define pr where "pr = pseudoRandom (of_int i) (of_int j) sd"
  have e0: "pseudoRandomJ (Num (of_int i)) (Num (of_int j)) (Num sd) = Num pr"
    unfolding pr_def by (rule pseudoRandomJ_exact [OF assms])
  have r: "0 \<le> pr" "pr < 1"
    unfolding pr_def pseudoRandom_def Let_def by (rule fract_range)+
  then have b2: "\<bar>pr * 2\<bar> \<le> 2" by simp
  have e1: "omul (Num pr) (Num 2) = Num (pr * 2)"
    by (rule omul_Num, rule small_in_range) (use b2 in simp)
  have "\<bar>pi\<bar> \<le> 4" using pi_less_4 pi_gt_zero by simp
  from abs_mult_le [OF b2 this] have b3: "\<bar>pr * 2 * pi\<bar> \<le> 2 * 4" .
  have e2: "omul (Num (pr * 2)) (Num pi) = Num (pr * 2 * pi)"
    by (rule omul_Num, rule small_in_range) (use b3 in simp)
  show ?thesis
    unfolding randomGradientJ_def randomGradient_def Let_def e0 e1 e2 pr_def [symmetric]
    by simp
qed

lemma randomGradient_abs:
  "\<bar>fst (randomGradient i j sd)\<bar> \<le> 1" "\<bar>snd (randomGradient i j sd)\<bar> \<le> 1"
  by (simp_all add: randomGradient_def Let_def)

lemma dotGridGradientJ_exact:
  assumes "\<bar>real_of_int i\<bar> \<le> B" "\<bar>real_of_int j\<bar> \<le> B" "\<bar>sd\<bar> \<le> B"
    and hO: "11000 * B < overflowAt"
    and "\<bar>x - of_int i\<bar> \<le> 1" "\<bar>y - of_int j\<bar> \<le> 1"
  shows "dotGridGradientJ (Num (of_int i)) (Num (of_int j)) (Num x) (Num y) (Num sd) =
     Num (dotGridGradient i j x y sd)"
proof -
  define gx where "gx = fst (randomGradient i j sd)"
  define gy where "gy = snd (randomGradient i j sd)"
  have g: "\<bar>gx\<bar> \<le> 1" "\<bar>gy\<bar> \<le> 1"
    unfolding gx_def gy_def by (rule randomGradient_abs)+
  have e0: "randomGradientJ (Num (of_int i)) (Num (of_int j)) (Num sd) = (Num gx, Num gy)"
    unfolding gx_def gy_def by (rule randomGradientJ_exact [OF assms(1,2,3,4)])
  have e1: "osub (Num x) (Num (of_int i)) = Num (x - of_int i)"
    by (rule osub_Num, rule small_in_range) (use assms(5) in simp)
  have e2: "osub (Num y) (Num (of_int j)) = Num (y - of_int j)"
    by (rule osub_Num, rule small_in_range) (use assms(6) in simp)
  have bx: "\<bar>(x - of_int i) * gx\<bar> \<le> 1 * 1" by (rule abs_mult_le [OF assms(5) g(1)])
  have by': "\<bar>(y - of_int j) * gy\<bar> \<le> 1 * 1" by (rule abs_mult_le [OF assms(6) g(2)])
  have e3: "omul (Num (x - of_int i)) (Num gx) = Num ((x - of_int i) * gx)"
    by (rule omul_Num, rule small_in_range) (use bx in simp)
  have e4: "omul (Num (y - of_int j)) (Num gy) = Num ((y - of_int j) * gy)"
    by (rule omul_Num, rule small_in_range) (use by' in simp)
  have e5: "oadd (Num ((x - of_int i) * gx)) (Num ((y - of_int j) * gy)) =
      Num ((x - of_int i) * gx + (y - of_int j) * gy)"
    by (rule oadd_Num, rule small_in_range) (use bx by' in simp)
  show ?thesis
    unfolding dotGridGradientJ_def dotGridGradient_def Let_def e0 fst_conv snd_conv e1 e2 e3 e4 e5
    unfolding gx_def gy_def ..
qed

section \<open>The single octave\<close>

lemma fade_nonneg:
  assumes "0 \<le> t"
  shows "0 \<le> fade t"
proof -
  have "t * (t * 6 - 15) + 10 = 6 * (t - 5 / 4)\<^sup>2 + 5 / 8"
    by (simp add: power2_eq_square algebra_simps)
  moreover have "0 \<le> 6 * (t - 5 / 4)\<^sup>2"
    by simp
  ultimately have quad: "0 < t * (t * 6 - 15) + 10"
    by linarith
  have "0 \<le> t * t * t"
    using assms by simp
  then show ?thesis
    unfolding fade_def using quad by (simp add: mult_nonneg_nonneg)
qed

lemma fade_mirror: "fade (1 - t) = 1 - fade t"
  by (simp add: fade_def algebra_simps)

lemma fade_le_one: "t \<le> 1 \<Longrightarrow> fade t \<le> 1"
  using fade_nonneg [of "1 - t"] fade_mirror [of t] by simp

text \<open>The fade curve lies on the same side of \<open>1/2\<close> as its argument.\<close>

lemma fade_half:
  "(1 - 2 * t) * (fade t - 1 / 2) =
     - 2 * (t - 1 / 2)\<^sup>2 * (6 * (t * (1 - t))\<^sup>2 + 2 * (t * (1 - t)) + 1)"
  by (simp add: fade_def power2_eq_square algebra_simps)

lemma fade_weight:
  assumes "0 \<le> t" "t \<le> 1"
  shows "(1 - fade t) * t + fade t * (1 - t) \<le> 1 / 2"
proof -
  have "0 \<le> t * (1 - t)"
    using assms by simp
  then have "0 \<le> 6 * (t * (1 - t))\<^sup>2 + 2 * (t * (1 - t)) + 1"
    by simp
  then have "0 \<le> 2 * (t - 1 / 2)\<^sup>2 * (6 * (t * (1 - t))\<^sup>2 + 2 * (t * (1 - t)) + 1)"
    by (intro mult_nonneg_nonneg) simp_all
  then have "(1 - 2 * t) * (fade t - 1 / 2) \<le> 0"
    using fade_half [of t] by simp
  moreover have "(1 - fade t) * t + fade t * (1 - t) = 1 / 2 + (1 - 2 * t) * (fade t - 1 / 2)"
    by (simp add: algebra_simps)
  ultimately show ?thesis
    by linarith
qed

text \<open>The gradient is a unit vector, so a corner contributes at most the offset from it.\<close>

lemma dotGridGradient_abs:
  "\<bar>dotGridGradient ix iy x y sd\<bar> \<le> \<bar>x - of_int ix\<bar> + \<bar>y - of_int iy\<bar>"
proof -
  define gx where "gx = fst (randomGradient ix iy sd)"
  define gy where "gy = snd (randomGradient ix iy sd)"
  have gx: "\<bar>gx\<bar> \<le> 1" and gy: "\<bar>gy\<bar> \<le> 1"
    by (simp_all add: gx_def gy_def randomGradient_def Let_def)
  define p where "p = (x - of_int ix) * gx"
  define q where "q = (y - of_int iy) * gy"
  have "\<bar>p\<bar> \<le> \<bar>x - of_int ix\<bar> * 1"
    unfolding p_def abs_mult by (rule mult_left_mono [OF gx]) simp
  then have bp: "\<bar>p\<bar> \<le> \<bar>x - of_int ix\<bar>"
    by simp
  have "\<bar>q\<bar> \<le> \<bar>y - of_int iy\<bar> * 1"
    unfolding q_def abs_mult by (rule mult_left_mono [OF gy]) simp
  then have bq: "\<bar>q\<bar> \<le> \<bar>y - of_int iy\<bar>"
    by simp
  have "dotGridGradient ix iy x y sd = p + q"
    by (simp add: dotGridGradient_def Let_def gx_def gy_def p_def q_def)
  moreover have "\<bar>p + q\<bar> \<le> \<bar>p\<bar> + \<bar>q\<bar>"
    by (rule abs_triangle_ineq)
  ultimately show ?thesis
    using bp bq by simp
qed

lemma lerp_abs:
  assumes "0 \<le> t" "t \<le> 1" "\<bar>a\<bar> \<le> A" "\<bar>c\<bar> \<le> C"
  shows "\<bar>lerp a c t\<bar> \<le> lerp A C t"
proof -
  have e: "lerp a c t = (1 - t) * a + t * c" "lerp A C t = (1 - t) * A + t * C"
    by (simp_all add: lerp_def algebra_simps)
  have "\<bar>(1 - t) * a\<bar> \<le> (1 - t) * A"
    using assms by (simp add: abs_mult mult_left_mono)
  moreover have "\<bar>t * c\<bar> \<le> t * C"
    using assms by (simp add: abs_mult mult_left_mono)
  ultimately show ?thesis
    unfolding e by linarith
qed

text \<open>
  The four corner bounds are interpolated with the same weights as the corner values; what
  comes out is one \<open>fade_weight\<close> term for each axis.
\<close>

lemma rawPerlin_abs: "\<bar>rawPerlin x y sd\<bar> \<le> 1"
proof -
  define sx where "sx = x - of_int \<lfloor>x\<rfloor>"
  define sy where "sy = y - of_int \<lfloor>y\<rfloor>"
  have sx: "0 \<le> sx" "sx \<le> 1" and sy: "0 \<le> sy" "sy \<le> 1"
    unfolding sx_def sy_def by linarith+
  define u where "u = fade sx"
  define v where "v = fade sy"
  have u: "0 \<le> u" "u \<le> 1" and v: "0 \<le> v" "v \<le> 1"
    using sx sy by (simp_all add: u_def v_def fade_nonneg fade_le_one)
  define n00 where "n00 = dotGridGradient \<lfloor>x\<rfloor> \<lfloor>y\<rfloor> x y sd"
  define n10 where "n10 = dotGridGradient (\<lfloor>x\<rfloor> + 1) \<lfloor>y\<rfloor> x y sd"
  define n01 where "n01 = dotGridGradient \<lfloor>x\<rfloor> (\<lfloor>y\<rfloor> + 1) x y sd"
  define n11 where "n11 = dotGridGradient (\<lfloor>x\<rfloor> + 1) (\<lfloor>y\<rfloor> + 1) x y sd"
  have b00: "\<bar>n00\<bar> \<le> sx + sy"
    using dotGridGradient_abs [of "\<lfloor>x\<rfloor>" "\<lfloor>y\<rfloor>" x y sd] sx sy
    by (simp add: n00_def sx_def sy_def)
  have b10: "\<bar>n10\<bar> \<le> (1 - sx) + sy"
    using dotGridGradient_abs [of "\<lfloor>x\<rfloor> + 1" "\<lfloor>y\<rfloor>" x y sd] sx sy
    by (simp add: n10_def sx_def sy_def)
  have b01: "\<bar>n01\<bar> \<le> sx + (1 - sy)"
    using dotGridGradient_abs [of "\<lfloor>x\<rfloor>" "\<lfloor>y\<rfloor> + 1" x y sd] sx sy
    by (simp add: n01_def sx_def sy_def)
  have b11: "\<bar>n11\<bar> \<le> (1 - sx) + (1 - sy)"
    using dotGridGradient_abs [of "\<lfloor>x\<rfloor> + 1" "\<lfloor>y\<rfloor> + 1" x y sd] sx sy
    by (simp add: n11_def sx_def sy_def)
  define W where "W = (1 - u) * sx + u * (1 - sx)"
  have W: "W \<le> 1 / 2"
    unfolding W_def u_def using fade_weight [OF sx] .
  have V: "(1 - v) * sy + v * (1 - sy) \<le> 1 / 2"
    unfolding v_def using fade_weight [OF sy] .
  have lo: "\<bar>lerp n00 n10 u\<bar> \<le> W + sy"
  proof -
    have "\<bar>lerp n00 n10 u\<bar> \<le> lerp (sx + sy) ((1 - sx) + sy) u"
      by (rule lerp_abs [OF u b00 b10])
    also have "\<dots> = W + sy"
      by (simp add: lerp_def W_def algebra_simps)
    finally show ?thesis .
  qed
  have hi: "\<bar>lerp n01 n11 u\<bar> \<le> W + (1 - sy)"
  proof -
    have "\<bar>lerp n01 n11 u\<bar> \<le> lerp (sx + (1 - sy)) ((1 - sx) + (1 - sy)) u"
      by (rule lerp_abs [OF u b01 b11])
    also have "\<dots> = W + (1 - sy)"
      by (simp add: lerp_def W_def algebra_simps)
    finally show ?thesis .
  qed
  have "\<bar>lerp (lerp n00 n10 u) (lerp n01 n11 u) v\<bar> \<le> lerp (W + sy) (W + (1 - sy)) v"
    by (rule lerp_abs [OF v lo hi])
  also have "\<dots> = W + ((1 - v) * sy + v * (1 - sy))"
    by (simp add: lerp_def algebra_simps)
  also have "\<dots> \<le> 1"
    using W V by linarith
  finally have "\<bar>lerp (lerp n00 n10 u) (lerp n01 n11 u) v\<bar> \<le> 1" .
  moreover have "rawPerlin x y sd = lerp (lerp n00 n10 u) (lerp n01 n11 u) v"
    by (simp add: rawPerlin_def Let_def n00_def n10_def n01_def n11_def u_def v_def
        sx_def sy_def)
  ultimately show ?thesis
    by simp
qed

lemma rawPerlin_at_int: "rawPerlin (of_int i) (of_int j) sd = 0"
  by (simp add: rawPerlin_def Let_def fade_def lerp_def dotGridGradient_def)

section \<open>The octave sum\<close>

text \<open>
  The loop keeps \<open>\<bar>tot\<bar> \<le> maxValue\<close> and a positive amplitude, and each iteration
  raises \<open>maxValue\<close>.
\<close>

lemma octaveLoop_inv:
  assumes "octaveLoop n x y sd (tot, fr, amp, mx) = (tot', fr', amp', mx')"
    and "\<bar>tot\<bar> \<le> mx" and "0 < amp"
  shows "\<bar>tot'\<bar> \<le> mx' \<and> mx \<le> mx' \<and> (0 < n \<longrightarrow> mx < mx')"
  using assms
proof (induction n arbitrary: tot fr amp mx)
  case 0
  then show ?case by simp
next
  case (Suc n)
  have rp: "\<bar>rawPerlin (x * fr) (y * fr) sd * amp\<bar> \<le> amp"
    using rawPerlin_abs [of "x * fr" "y * fr" sd] Suc.prems(3)
    by (simp add: abs_mult mult_left_le_one_le)
  have step: "\<bar>tot + rawPerlin (x * fr) (y * fr) sd * amp\<bar> \<le> mx + amp"
    using rp Suc.prems(2) by linarith
  have run: "octaveLoop n x y sd
      (tot + rawPerlin (x * fr) (y * fr) sd * amp, fr * 2, amp * 0.5, mx + amp) =
      (tot', fr', amp', mx')"
    using Suc.prems(1) by simp
  have "0 < amp * 0.5"
    using Suc.prems(3) by simp
  from Suc.IH [OF run step this] Suc.prems(3) show ?case
    by simp
qed

lemma perlin_abs: "\<bar>perlin cfg x y sd\<bar> \<le> 1"
proof -
  obtain tot fr amp mx
    where run: "octaveLoop (octaveCount cfg) x y sd (0, 1, 1, 0) = (tot, fr, amp, mx)"
    by (metis prod_cases4)
  have "0 < octaveCount cfg"
    by (simp add: octaveCount_def)
  with octaveLoop_inv [OF run] have bound: "\<bar>tot\<bar> \<le> mx" "0 < mx"
    by simp_all
  have "perlin cfg x y sd = tot / mx"
    by (simp add: perlin_def run)
  moreover have "\<bar>tot / mx\<bar> \<le> 1"
    using bound by simp
  ultimately show ?thesis
    by simp
qed

text \<open>On the lattice every octave is 0, since the frequencies are integers.\<close>

lemma octaveLoop_lattice:
  "octaveLoop n (of_int i) (of_int j) sd (t, of_int f, amp, mx) = (t', f', amp', mx')
     \<Longrightarrow> t' = t"
proof (induction n arbitrary: t f amp mx)
  case 0
  then show ?case by simp
next
  case (Suc n)
  have z: "rawPerlin (of_int i * of_int f) (of_int j * of_int f) sd = 0"
    using rawPerlin_at_int [of "i * f" "j * f" sd] by simp
  have "octaveLoop n (of_int i) (of_int j) sd (t, of_int (f * 2), amp * 0.5, mx + amp) =
      (t', f', amp', mx')"
    using Suc.prems by (simp add: z)
  then show ?case
    by (rule Suc.IH)
qed

lemma perlin_lattice: "perlin cfg (of_int i) (of_int j) sd = 0"
proof -
  obtain t f a m
    where run: "octaveLoop (octaveCount cfg) (of_int i) (of_int j) sd (0, 1, 1, 0) = (t, f, a, m)"
    by (metis prod_cases4)
  then have "octaveLoop (octaveCount cfg) (of_int i) (of_int j) sd (0, of_int 1, 1, 0) =
      (t, f, a, m)"
    by simp
  then have "t = 0"
    by (rule octaveLoop_lattice)
  then show ?thesis
    by (simp add: perlin_def run)
qed

section \<open>The noise of the source on numbers in range\<close>

text \<open>
  For coordinates and a seed bounded by \<open>B\<close>, with \<open>B\<close> far enough below the overflow
  threshold, no step of \<^verbatim>\<open>rawPerlin\<close> and \<^verbatim>\<open>perlin\<close> overflows, and the functions of the
  source take the values of their counterparts in exact arithmetic.
\<close>

lemma floor_bound:
  assumes "\<bar>x\<bar> \<le> B"
  shows "\<bar>real_of_int \<lfloor>x\<rfloor>\<bar> \<le> B + 1" "\<bar>real_of_int (\<lfloor>x\<rfloor> + 1)\<bar> \<le> B + 1"
proof -
  have "real_of_int \<lfloor>x\<rfloor> \<le> x" "x < real_of_int \<lfloor>x\<rfloor> + 1"
    by linarith+
  then show "\<bar>real_of_int \<lfloor>x\<rfloor>\<bar> \<le> B + 1" "\<bar>real_of_int (\<lfloor>x\<rfloor> + 1)\<bar> \<le> B + 1"
    unfolding of_int_add of_int_1 using assms by linarith+
qed

lemma rawPerlinJ_exact:
  assumes x: "\<bar>x\<bar> \<le> B" and y: "\<bar>y\<bar> \<le> B" and sd: "\<bar>sd\<bar> \<le> B"
    and hB: "1 \<le> B" and hO: "22000 * B < overflowAt"
  shows "rawPerlinJ (Num x) (Num y) (Num sd) = Num (rawPerlin x y sd)"
proof -
  define i where "i = \<lfloor>x\<rfloor>"
  define j where "j = \<lfloor>y\<rfloor>"
  have hO2: "11000 * (2 * B) < overflowAt" using hO by simp
  have i0: "\<bar>real_of_int i\<bar> \<le> 2 * B" and i1: "\<bar>real_of_int (i + 1)\<bar> \<le> 2 * B"
    using floor_bound [OF x] hB unfolding i_def by linarith+
  have j0: "\<bar>real_of_int j\<bar> \<le> 2 * B" and j1: "\<bar>real_of_int (j + 1)\<bar> \<le> 2 * B"
    using floor_bound [OF y] hB unfolding j_def by linarith+
  have s2: "\<bar>sd\<bar> \<le> 2 * B" using sd hB by linarith
  have dx0: "\<bar>x - of_int i\<bar> \<le> 1" and dx1: "\<bar>x - of_int (i + 1)\<bar> \<le> 1"
    unfolding i_def by (simp_all; linarith)+
  have dy0: "\<bar>y - of_int j\<bar> \<le> 1" and dy1: "\<bar>y - of_int (j + 1)\<bar> \<le> 1"
    unfolding j_def by (simp_all; linarith)+
  have fx: "jfloor (Num x) = Num (of_int i)" and fy: "jfloor (Num y) = Num (of_int j)"
    by (simp_all add: i_def j_def)
  have x1: "oadd (Num (of_int i)) (Num 1) = Num (of_int (i + 1))"
  proof -
    have "\<bar>real_of_int i + 1\<bar> < overflowAt" using i1 hO hB by simp
    then show ?thesis by (simp add: oadd_Num)
  qed
  have y1: "oadd (Num (of_int j)) (Num 1) = Num (of_int (j + 1))"
  proof -
    have "\<bar>real_of_int j + 1\<bar> < overflowAt" using j1 hO hB by simp
    then show ?thesis by (simp add: oadd_Num)
  qed
  define sx where "sx = x - of_int i"
  define sy where "sy = y - of_int j"
  have sxr: "0 \<le> sx" "sx \<le> 1" and syr: "0 \<le> sy" "sy \<le> 1"
    unfolding sx_def sy_def i_def j_def by linarith+
  have esx: "osub (Num x) (Num (of_int i)) = Num sx"
    unfolding sx_def by (rule osub_Num, rule small_in_range) (use dx0 in simp)
  have esy: "osub (Num y) (Num (of_int j)) = Num sy"
    unfolding sy_def by (rule osub_Num, rule small_in_range) (use dy0 in simp)
  have eu: "fadeJ (Num sx) = Num (fade sx)" by (rule fadeJ_exact [OF sxr])
  have ev: "fadeJ (Num sy) = Num (fade sy)" by (rule fadeJ_exact [OF syr])
  have u: "\<bar>fade sx\<bar> \<le> 1" using fade_nonneg [OF sxr(1)] fade_le_one [OF sxr(2)] by simp
  have v: "\<bar>fade sy\<bar> \<le> 1" using fade_nonneg [OF syr(1)] fade_le_one [OF syr(2)] by simp
  define n00 where "n00 = dotGridGradient i j x y sd"
  define n10 where "n10 = dotGridGradient (i + 1) j x y sd"
  define n01 where "n01 = dotGridGradient i (j + 1) x y sd"
  define n11 where "n11 = dotGridGradient (i + 1) (j + 1) x y sd"
  have e00: "dotGridGradientJ (Num (of_int i)) (Num (of_int j)) (Num x) (Num y) (Num sd) = Num n00"
    unfolding n00_def by (rule dotGridGradientJ_exact [OF i0 j0 s2 hO2 dx0 dy0])
  have e10: "dotGridGradientJ (Num (of_int (i + 1))) (Num (of_int j)) (Num x) (Num y) (Num sd) = Num n10"
    unfolding n10_def by (rule dotGridGradientJ_exact [OF i1 j0 s2 hO2 dx1 dy0])
  have e01: "dotGridGradientJ (Num (of_int i)) (Num (of_int (j + 1))) (Num x) (Num y) (Num sd) = Num n01"
    unfolding n01_def by (rule dotGridGradientJ_exact [OF i0 j1 s2 hO2 dx0 dy1])
  have e11: "dotGridGradientJ (Num (of_int (i + 1))) (Num (of_int (j + 1))) (Num x) (Num y) (Num sd) = Num n11"
    unfolding n11_def by (rule dotGridGradientJ_exact [OF i1 j1 s2 hO2 dx1 dy1])
  have b00: "\<bar>n00\<bar> \<le> 2" using dotGridGradient_abs [of i j x y sd] dx0 dy0 unfolding n00_def by linarith
  have b10: "\<bar>n10\<bar> \<le> 2" using dotGridGradient_abs [of "i + 1" j x y sd] dx1 dy0 unfolding n10_def by linarith
  have b01: "\<bar>n01\<bar> \<le> 2" using dotGridGradient_abs [of i "j + 1" x y sd] dx0 dy1 unfolding n01_def by linarith
  have b11: "\<bar>n11\<bar> \<le> 2" using dotGridGradient_abs [of "i + 1" "j + 1" x y sd] dx1 dy1 unfolding n11_def by linarith
  have lo: "lerpJ (Num n00) (Num n10) (Num (fade sx)) = Num (lerp n00 n10 (fade sx))"
    by (rule lerpJ_exact) (use b00 b10 u in simp_all)
  have hi: "lerpJ (Num n01) (Num n11) (Num (fade sx)) = Num (lerp n01 n11 (fade sx))"
    by (rule lerpJ_exact) (use b01 b11 u in simp_all)
  have blo: "\<bar>lerp n00 n10 (fade sx)\<bar> \<le> 1000"
  proof -
    have "\<bar>fade sx * (n10 - n00)\<bar> \<le> 1 * 4"
      by (rule abs_mult_le [OF u]) (use b00 b10 in linarith)
    then show ?thesis unfolding lerp_def using b00 by linarith
  qed
  have bhi: "\<bar>lerp n01 n11 (fade sx)\<bar> \<le> 1000"
  proof -
    have "\<bar>fade sx * (n11 - n01)\<bar> \<le> 1 * 4"
      by (rule abs_mult_le [OF u]) (use b01 b11 in linarith)
    then show ?thesis unfolding lerp_def using b01 by linarith
  qed
  have fin: "lerpJ (Num (lerp n00 n10 (fade sx))) (Num (lerp n01 n11 (fade sx))) (Num (fade sy)) =
      Num (lerp (lerp n00 n10 (fade sx)) (lerp n01 n11 (fade sx)) (fade sy))"
    by (rule lerpJ_exact [OF blo bhi v])
  have "rawPerlinJ (Num x) (Num y) (Num sd) =
      Num (lerp (lerp n00 n10 (fade sx)) (lerp n01 n11 (fade sx)) (fade sy))"
    unfolding rawPerlinJ_def Let_def fx fy x1 y1 esx esy eu ev e00 e10 e01 e11 lo hi fin ..
  also have "\<dots> = Num (rawPerlin x y sd)"
    by (simp add: rawPerlin_def Let_def n00_def n10_def n01_def n11_def sx_def sy_def i_def j_def)
  finally show ?thesis .
qed

lemma octaveLoopJ_exact:
  assumes "\<bar>x\<bar> \<le> B" "\<bar>y\<bar> \<le> B" "\<bar>sd\<bar> \<le> B" "1 \<le> B" "200000 * B < overflowAt"
    and "0 < fr" "fr * 2 ^ n \<le> 16" "0 < amp" "amp \<le> 1"
    and "\<bar>tot\<bar> + real n \<le> 100" "\<bar>mx\<bar> + real n \<le> 100"
  shows "octaveLoopJ n (Num x) (Num y) (Num sd) (Num tot, Num fr, Num amp, Num mx) =
     (case octaveLoop n x y sd (tot, fr, amp, mx) of
        (t, f, a, m) \<Rightarrow> (Num t, Num f, Num a, Num m))"
  using assms(6-)
proof (induction n arbitrary: tot fr amp mx)
  case 0
  show ?case by simp
next
  case (Suc n)
  note hB = assms(4) and hO = assms(5)
  have p2: "(1::real) \<le> 2 ^ n" by simp
  have "fr * 2 \<le> fr * 2 * 2 ^ n"
    using Suc.prems(1) p2 by (simp add: mult_le_cancel_left2)
  then have fr8: "fr \<le> 8" using Suc.prems(2) by simp
  have frn: "\<bar>fr\<bar> \<le> 8" using Suc.prems(1) fr8 by simp
  have xf: "\<bar>x * fr\<bar> \<le> B * 8" by (rule abs_mult_le [OF assms(1) frn])
  have yf: "\<bar>y * fr\<bar> \<le> B * 8" by (rule abs_mult_le [OF assms(2) frn])
  have s8: "\<bar>sd\<bar> \<le> B * 8" using assms(3) hB by linarith
  have e1: "omul (Num x) (Num fr) = Num (x * fr)"
    by (rule omul_Num) (use xf hO hB in linarith)
  have e2: "omul (Num y) (Num fr) = Num (y * fr)"
    by (rule omul_Num) (use yf hO hB in linarith)
  define rp where "rp = rawPerlin (x * fr) (y * fr) sd"
  have e3: "rawPerlinJ (Num (x * fr)) (Num (y * fr)) (Num sd) = Num rp"
    unfolding rp_def by (rule rawPerlinJ_exact [OF xf yf s8]) (use hB hO in linarith)+
  have rpb: "\<bar>rp\<bar> \<le> 1" unfolding rp_def by (rule rawPerlin_abs)
  have ab: "\<bar>amp\<bar> \<le> 1" using Suc.prems(3,4) by simp
  have ra: "\<bar>rp * amp\<bar> \<le> 1 * 1" by (rule abs_mult_le [OF rpb ab])
  have e4: "omul (Num rp) (Num amp) = Num (rp * amp)"
    by (rule omul_Num, rule small_in_range) (use ra in simp)
  have tb: "\<bar>tot + rp * amp\<bar> + real n \<le> 100" using ra Suc.prems(5) by simp
  have e5: "oadd (Num tot) (Num (rp * amp)) = Num (tot + rp * amp)"
    by (rule oadd_Num, rule small_in_range) (use tb in simp)
  have e6: "omul (Num fr) (Num 2) = Num (fr * 2)"
    by (rule omul_Num, rule small_in_range) (use frn in simp)
  have e7: "omul (Num amp) (Num 0.5) = Num (amp * 0.5)"
    by (rule omul_Num, rule small_in_range) (use ab in simp)
  have mb: "\<bar>mx + amp\<bar> + real n \<le> 100" using ab Suc.prems(6) by simp
  have e8: "oadd (Num mx) (Num amp) = Num (mx + amp)"
    by (rule oadd_Num, rule small_in_range) (use mb in simp)
  have IH: "octaveLoopJ n (Num x) (Num y) (Num sd)
       (Num (tot + rp * amp), Num (fr * 2), Num (amp * 0.5), Num (mx + amp)) =
     (case octaveLoop n x y sd (tot + rp * amp, fr * 2, amp * 0.5, mx + amp) of
        (t, f, a, m) \<Rightarrow> (Num t, Num f, Num a, Num m))"
  proof (rule Suc.IH)
    show "0 < fr * 2" using Suc.prems(1) by simp
    show "fr * 2 * 2 ^ n \<le> 16" using Suc.prems(2) by (simp add: mult.assoc)
    show "0 < amp * 0.5" using Suc.prems(3) by simp
    show "amp * 0.5 \<le> 1" using Suc.prems(3,4) by simp
    show "\<bar>tot + rp * amp\<bar> + real n \<le> 100" by (rule tb)
    show "\<bar>mx + amp\<bar> + real n \<le> 100" by (rule mb)
  qed
  show ?case
    unfolding octaveLoopJ.simps octaveLoop.simps e1 e2 e3 e4 e5 e6 e7 e8 IH
    unfolding rp_def ..
qed

lemma perlinJ_exact:
  assumes "\<bar>x\<bar> \<le> B" "\<bar>y\<bar> \<le> B" "\<bar>sd\<bar> \<le> B" "1 \<le> B" "200000 * B < overflowAt"
  shows "perlinJ cfg (Num x) (Num y) (Num sd) = Num (perlin cfg x y sd)"
proof -
  obtain tot fr amp mx
    where run: "octaveLoop (octaveCount cfg) x y sd (0, 1, 1, 0) = (tot, fr, amp, mx)"
    by (metis prod_cases4)
  have cnt: "0 < octaveCount cfg" "(1::real) * 2 ^ octaveCount cfg \<le> 16"
    "\<bar>0::real\<bar> + real (octaveCount cfg) \<le> 100"
    by (simp_all add: octaveCount_def)
  have runJ: "octaveLoopJ (octaveCount cfg) (Num x) (Num y) (Num sd) (Num 0, Num 1, Num 1, Num 0) =
      (Num tot, Num fr, Num amp, Num mx)"
    using octaveLoopJ_exact [OF assms, of 1 "octaveCount cfg" 1 0 0] cnt
    by (simp add: run)
  from octaveLoop_inv [OF run] cnt(1) have bound: "\<bar>tot\<bar> \<le> mx" "0 < mx"
    by simp_all
  then have "\<bar>tot / mx\<bar> \<le> 1" by simp
  then have "\<bar>tot / mx\<bar> \<le> 50000" by linarith
  then have "\<bar>tot / mx\<bar> < overflowAt" by (rule small_in_range)
  moreover have "mx \<noteq> 0" using bound(2) by simp
  ultimately have "odiv (Num tot) (Num mx) = Num (tot / mx)"
    by (intro odiv_Num)
  then show ?thesis
    by (simp add: perlinJ_def perlin_def run runJ)
qed

section \<open>Overflow in the noise\<close>

text \<open>
  When \<^verbatim>\<open>seed * 9999\<close> is not finite, or a coordinate is not, the sum under the sine is
  not finite, the hash is \<^verbatim>\<open>NaN\<close>, and so are the corner product, the octave and the sum
  of the octaves.
\<close>

lemma pseudoRandomJ_overflow:
  assumes "\<not> is_finite (omul sd (Num 9999))"
  shows "pseudoRandomJ ix iy sd = NaN"
proof -
  have "\<not> is_finite (oadd (oadd (omul ix (Num 127.1)) (omul iy (Num 311.7))) (omul sd (Num 9999)))"
    by (rule oadd_not_finite_right [OF assms])
  then show ?thesis
    by (simp add: pseudoRandomJ_def Let_def jsin_not_finite omul_NaN fractJ_def osub_NaN)
qed

lemma dotGridGradientJ_seed:
  assumes "\<not> is_finite (omul sd (Num 9999))"
  shows "dotGridGradientJ ix iy x y sd = NaN"
  by (simp add: dotGridGradientJ_def randomGradientJ_def Let_def pseudoRandomJ_overflow [OF assms]
      omul_NaN oadd_NaN)

lemma dotGridGradientJ_coordinate:
  assumes "\<not> is_finite x"
  shows "dotGridGradientJ (jfloor x) iy x y sd = NaN"
  by (simp add: dotGridGradientJ_def Let_def osub_floor_not_finite [OF assms] omul_NaN oadd_NaN)

lemma rawPerlinJ_first_corner:
  assumes "dotGridGradientJ (jfloor x) (jfloor y) x y sd = NaN"
  shows "rawPerlinJ x y sd = NaN"
  by (simp add: rawPerlinJ_def Let_def assms lerpJ_def oadd_NaN)

lemma rawPerlinJ_seed:
  "\<not> is_finite (omul sd (Num 9999)) \<Longrightarrow> rawPerlinJ x y sd = NaN"
  by (rule rawPerlinJ_first_corner) (rule dotGridGradientJ_seed)

lemma rawPerlinJ_coordinate: "\<not> is_finite x \<Longrightarrow> rawPerlinJ x y sd = NaN"
  by (rule rawPerlinJ_first_corner) (rule dotGridGradientJ_coordinate)

lemma octaveLoopJ_NaN:
  "\<exists>f a m. octaveLoopJ n x y sd (NaN, fr, amp, mx) = (NaN, f, a, m)"
  by (induction n arbitrary: fr amp mx) (simp_all add: oadd_NaN)

lemma perlinJ_first_octave:
  assumes "rawPerlinJ (omul x (Num 1)) (omul y (Num 1)) sd = NaN"
  shows "perlinJ cfg x y sd = NaN"
proof -
  obtain k where k: "octaveCount cfg = Suc k"
    by (cases "octaveCount cfg") (simp_all add: octaveCount_def split: if_splits)
  obtain f a m where
    "octaveLoopJ k x y sd (NaN, omul (Num 1) (Num 2), omul (Num 1) (Num 0.5), oadd (Num 0) (Num 1))
       = (NaN, f, a, m)"
    using octaveLoopJ_NaN by blast
  then show ?thesis
    by (simp add: perlinJ_def k assms omul_NaN oadd_NaN odiv_NaN)
qed

lemma perlinJ_seed: "\<not> is_finite (omul sd (Num 9999)) \<Longrightarrow> perlinJ cfg x y sd = NaN"
  by (rule perlinJ_first_octave) (rule rawPerlinJ_seed)

lemma perlinJ_coordinate:
  assumes "\<not> is_finite x"
  shows "perlinJ cfg x y sd = NaN"
proof (rule perlinJ_first_octave)
  have "\<not> is_finite (omul x (Num 1))"
    by (rule omul_pos_not_finite [OF assms]) simp
  then show "rawPerlinJ (omul x (Num 1)) (omul y (Num 1)) sd = NaN"
    by (rule rawPerlinJ_coordinate)
qed

lemma seed_not_finite: "\<not> is_finite sd \<Longrightarrow> \<not> is_finite (omul sd (Num 9999))"
  by (rule omul_pos_not_finite) simp_all

section \<open>The noise at the lattice and its range\<close>

lemma range_22000: "22000 * (10::real) ^ 300 < overflowAt"
  using range_300 one_le_300 by linarith

lemma within_300: "\<bar>a\<bar> \<le> 10 \<Longrightarrow> \<bar>a\<bar> \<le> (10::real) ^ 300"
  using ten_le_300 by linarith

text \<open>
  C10, as the code has it. For every pair of integer coordinates and every seed of
  magnitude at most \<open>10 ^ 300\<close>, \<^verbatim>\<open>rawPerlin\<close> returns 0: the fractional offset is 0
  and its faded weight is 0, the dot product of the selected corner is taken against the
  zero vector, and no gradient is \<^verbatim>\<open>NaN\<close>.
\<close>

theorem rawPerlinJ_lattice:
  assumes "\<bar>real_of_int ix\<bar> \<le> 10 ^ 300" "\<bar>real_of_int iy\<bar> \<le> 10 ^ 300" "\<bar>sd\<bar> \<le> 10 ^ 300"
  shows "fadeJ (osub (Num (of_int ix)) (jfloor (Num (of_int ix)))) = Num 0 \<and>
         dotGridGradientJ (Num (of_int ix)) (Num (of_int iy)) (Num (of_int ix)) (Num (of_int iy))
           (Num sd) = Num 0 \<and>
         rawPerlinJ (Num (of_int ix)) (Num (of_int iy)) (Num sd) = Num 0"
proof (intro conjI)
  have "osub (Num (of_int ix)) (jfloor (Num (of_int ix))) = Num 0"
    using osub_Num [of "of_int ix" "of_int ix"] range_small by simp
  then show "fadeJ (osub (Num (of_int ix)) (jfloor (Num (of_int ix)))) = Num 0"
    using fadeJ_exact [of 0] by (simp add: fade_def)
  have hO: "11000 * (10::real) ^ 300 < overflowAt"
    using range_300 one_le_300 by linarith
  have "dotGridGradientJ (Num (of_int ix)) (Num (of_int iy)) (Num (of_int ix)) (Num (of_int iy))
      (Num sd) = Num (dotGridGradient ix iy (of_int ix) (of_int iy) sd)"
    by (rule dotGridGradientJ_exact [OF assms hO]) simp_all
  also have "\<dots> = Num 0"
    by (simp add: dotGridGradient_def Let_def)
  finally show "dotGridGradientJ (Num (of_int ix)) (Num (of_int iy)) (Num (of_int ix))
      (Num (of_int iy)) (Num sd) = Num 0" .
  have "rawPerlinJ (Num (of_int ix)) (Num (of_int iy)) (Num sd) =
      Num (rawPerlin (of_int ix) (of_int iy) sd)"
    by (rule rawPerlinJ_exact [OF assms one_le_300 range_22000])
  then show "rawPerlinJ (Num (of_int ix)) (Num (of_int iy)) (Num sd) = Num 0"
    by (simp only: rawPerlin_at_int)
qed

text \<open>The lattice point \<open>(3, -7)\<close> with the seed 4.2.\<close>

theorem rawPerlinJ_lattice_witness:
  "rawPerlinJ (Num 3) (Num (- 7)) (Num 4.2) = Num 0"
proof -
  have "\<bar>real_of_int 3\<bar> \<le> 10 ^ 300" "\<bar>real_of_int (- 7)\<bar> \<le> 10 ^ 300"
    "\<bar>4.2 :: real\<bar> \<le> 10 ^ 300"
    by (rule within_300, simp)+
  then have "rawPerlinJ (Num (of_int 3)) (Num (of_int (- 7))) (Num 4.2) = Num 0"
    using rawPerlinJ_lattice [of 3 "- 7" "4.2"] by blast
  then show ?thesis
    by (simp only: of_int_numeral of_int_minus)
qed

text \<open>
  C10 as stated, for every seed, fails. With the seed \<open>10 ^ 305\<close>, a finite number, the
  product \<^verbatim>\<open>seed * 9999\<close> is infinite, the sine of the sum is \<^verbatim>\<open>NaN\<close>, every gradient is
  \<^verbatim>\<open>NaN\<close>, and at the lattice point \<open>(1, 2)\<close> \<^verbatim>\<open>rawPerlin\<close> returns \<^verbatim>\<open>NaN\<close>, not 0.
\<close>

theorem rawPerlinJ_lattice_overflow:
  "rawPerlinJ (Num 1) (Num 2) (Num (10 ^ 305)) = NaN \<and>
   rawPerlinJ (Num 1) (Num 2) (Num (10 ^ 305)) \<noteq> Num 0"
proof -
  have "\<not> is_finite (omul (Num (10 ^ 305)) (Num 9999))"
    by (simp only: seed_overflow is_finite.simps not_False_eq_True)
  then have "rawPerlinJ (Num 1) (Num 2) (Num (10 ^ 305)) = NaN"
    by (rule rawPerlinJ_seed)
  then show ?thesis
    by (simp only: jsnum.distinct not_False_eq_True simp_thms)
qed

text \<open>
  C1, as the code has it. For every point and every seed of magnitude at most
  \<open>10 ^ 300\<close>, and both settings of the octave toggle (1 or 4 octaves), the value
  \<^verbatim>\<open>total / maxValue\<close> that \<^verbatim>\<open>perlin\<close> returns lies in \<open>[-1, 1]\<close>, and after the remap
  \<open>(v + 1) / 2\<close> in \<open>[0, 1]\<close>.
\<close>

theorem perlinJ_range:
  assumes "\<bar>x\<bar> \<le> 10 ^ 300" "\<bar>y\<bar> \<le> 10 ^ 300" "\<bar>sd\<bar> \<le> 10 ^ 300"
  shows "js_le (Num (- 1)) (perlinJ cfg (Num x) (Num y) (Num sd)) \<and>
         js_le (perlinJ cfg (Num x) (Num y) (Num sd)) (Num 1) \<and>
         js_le (Num 0) (jdiv (jadd (perlinJ cfg (Num x) (Num y) (Num sd)) (Num 1)) (Num 2)) \<and>
         js_le (jdiv (jadd (perlinJ cfg (Num x) (Num y) (Num sd)) (Num 1)) (Num 2)) (Num 1)"
proof -
  have e: "perlinJ cfg (Num x) (Num y) (Num sd) = Num (perlin cfg x y sd)"
    by (rule perlinJ_exact [OF assms one_le_300 range_300])
  show ?thesis
    unfolding e using perlin_abs [of cfg x y sd] by (simp add: js_div_def abs_le_iff)
qed

text \<open>The initial configuration at the point \<open>(1.01, 2.01)\<close> with the seed 0.\<close>

theorem perlinJ_range_witness:
  "js_le (Num (- 1)) (perlinJ initialConfig (Num 1.01) (Num 2.01) (Num 0)) \<and>
   js_le (perlinJ initialConfig (Num 1.01) (Num 2.01) (Num 0)) (Num 1) \<and>
   js_le (Num 0) (jdiv (jadd (perlinJ initialConfig (Num 1.01) (Num 2.01) (Num 0)) (Num 1)) (Num 2)) \<and>
   js_le (jdiv (jadd (perlinJ initialConfig (Num 1.01) (Num 2.01) (Num 0)) (Num 1)) (Num 2)) (Num 1)"
proof -
  have "\<bar>1.01 :: real\<bar> \<le> 10 ^ 300" "\<bar>2.01 :: real\<bar> \<le> 10 ^ 300" "\<bar>0 :: real\<bar> \<le> 10 ^ 300"
    by (rule within_300, simp)+
  then show ?thesis
    by (rule perlinJ_range)
qed

text \<open>
  C1 as stated, for every seed, fails. With the seed \<open>10 ^ 305\<close> the value that
  \<^verbatim>\<open>perlin\<close> returns at \<open>(0.5, 0.5)\<close> is \<^verbatim>\<open>NaN\<close>, it stays \<^verbatim>\<open>NaN\<close> after the remap, and
  \<^verbatim>\<open>NaN\<close> is not at least 0.
\<close>

theorem perlinJ_range_overflow:
  "perlinJ initialConfig (Num 0.5) (Num 0.5) (Num (10 ^ 305)) = NaN \<and>
   \<not> js_le (Num 0)
       (jdiv (jadd (perlinJ initialConfig (Num 0.5) (Num 0.5) (Num (10 ^ 305))) (Num 1)) (Num 2))"
proof -
  have "\<not> is_finite (omul (Num (10 ^ 305)) (Num 9999))"
    by (simp only: seed_overflow is_finite.simps not_False_eq_True)
  then have e: "perlinJ initialConfig (Num 0.5) (Num 0.5) (Num (10 ^ 305)) = NaN"
    by (rule perlinJ_seed)
  show ?thesis
    unfolding e by simp
qed

section \<open>Colours\<close>

lemma hexToRgb_white: "hexToRgb ''#ffffff'' = \<lparr>r = Num 255, g = Num 255, b = Num 255\<rparr>"
  by (simp add: hexToRgb_def hexPair_def hexDigit_def)

text \<open>A colour channel read from a hexadecimal string is a whole number from 0 to 255.\<close>

lemma hexDigit_bound: "hexDigit ch = Some h \<Longrightarrow> h \<le> 15"
  by (auto simp add: hexDigit_def Let_def split: if_splits)

lemma hexPair_bound: "hexPair hi lo = Some v \<Longrightarrow> v \<le> 255"
  by (auto simp add: hexPair_def split: option.splits dest!: hexDigit_bound)

lemma hexToRgb_Num:
  "\<exists>x y z. hexToRgb s = \<lparr>r = Num x, g = Num y, b = Num z\<rparr> \<and>
     \<bar>x\<bar> \<le> 255 \<and> \<bar>y\<bar> \<le> 255 \<and> \<bar>z\<bar> \<le> 255"
  by (auto simp add: hexToRgb_def Let_def split: list.split option.split dest!: hexPair_bound)


text \<open>
  With a ratio between \<open>-1\<close> and 1 no step of \<^verbatim>\<open>lerp\<close> on two channels leaves the range of
  the finite numbers.
\<close>

lemma interpolateColors_exact:
  assumes "\<bar>t\<bar> \<le> 1"
  shows "\<exists>x1 y1 z1 x2 y2 z2.
     hexToRgb c1 = \<lparr>r = Num x1, g = Num y1, b = Num z1\<rparr> \<and>
     hexToRgb c2 = \<lparr>r = Num x2, g = Num y2, b = Num z2\<rparr> \<and>
     interpolateColors c1 c2 (Num t) =
       \<lparr>r = math_round (Num (lerp x1 x2 t)), g = math_round (Num (lerp y1 y2 t)),
        b = math_round (Num (lerp z1 z2 t))\<rparr>"
proof -
  obtain x1 y1 z1 where h1: "hexToRgb c1 = \<lparr>r = Num x1, g = Num y1, b = Num z1\<rparr>"
    and b1: "\<bar>x1\<bar> \<le> 255" "\<bar>y1\<bar> \<le> 255" "\<bar>z1\<bar> \<le> 255"
    using hexToRgb_Num by blast
  obtain x2 y2 z2 where h2: "hexToRgb c2 = \<lparr>r = Num x2, g = Num y2, b = Num z2\<rparr>"
    and b2: "\<bar>x2\<bar> \<le> 255" "\<bar>y2\<bar> \<le> 255" "\<bar>z2\<bar> \<le> 255"
    using hexToRgb_Num by blast
  have lx: "lerpJ (Num x1) (Num x2) (Num t) = Num (lerp x1 x2 t)"
    by (rule lerpJ_exact) (use b1 b2 assms in linarith)+
  have ly: "lerpJ (Num y1) (Num y2) (Num t) = Num (lerp y1 y2 t)"
    by (rule lerpJ_exact) (use b1 b2 assms in linarith)+
  have lz: "lerpJ (Num z1) (Num z2) (Num t) = Num (lerp z1 z2 t)"
    by (rule lerpJ_exact) (use b1 b2 assms in linarith)+
  have "interpolateColors c1 c2 (Num t) =
       \<lparr>r = math_round (Num (lerp x1 x2 t)), g = math_round (Num (lerp y1 y2 t)),
        b = math_round (Num (lerp z1 z2 t))\<rparr>"
    by (simp add: interpolateColors_def Let_def h1 h2 lx ly lz)
  with h1 h2 show ?thesis
    by blast
qed



lemma ratio_Num:
  assumes "p < a" "a \<le> t"
  shows "jdiv (jsub (Num a) (Num p)) (Num (t - p)) = Num ((a - p) / (t - p))"
  using assms by (simp add: jsub_def js_div_def)

lemma colorScan_skip:
  assumes "\<forall>j. i \<le> j \<and> j < k \<longrightarrow> \<not> js_le v (Num (threshold (thresholds cfg ! j)))"
    and "i \<le> k" "k \<le> length (thresholds cfg)"
  shows "colorScan cfg v i = colorScan cfg v k"
  using assms
proof (induction "k - i" arbitrary: i)
  case 0
  then show ?case by simp
next
  case (Suc d)
  then have ik: "i < k"
    by simp
  with Suc.prems have miss: "\<not> js_le v (Num (threshold (thresholds cfg ! i)))"
    by simp
  have "colorScan cfg v (i + 1) = colorScan cfg v k"
  proof (rule Suc.hyps(1))
    show "d = k - (i + 1)"
      using Suc.hyps(2) by simp
    show "\<forall>j. i + 1 \<le> j \<and> j < k \<longrightarrow> \<not> js_le v (Num (threshold (thresholds cfg ! j)))"
      using Suc.prems(1) by simp
    show "i + 1 \<le> k"
      using ik by simp
    show "k \<le> length (thresholds cfg)"
      by (rule Suc.prems(3))
  qed
  moreover have "colorScan cfg v i = colorScan cfg v (i + 1)"
    using ik Suc.prems(3) miss by (simp add: colorScan.simps [of cfg v i])
  ultimately show ?case
    by simp
qed

text \<open>
  C3. The scan returns the colour of the first stop, in list order, whose threshold is at
  least the value: that stop's own colour, or, when smoothing is on and the stop is not the
  first one, the interpolation between the previous stop's colour and its own at
  \<open>ratio = (value - prevThreshold) / (threshold - prevThreshold)\<close>. When every threshold
  is below the value the result is white, \<open>{255, 255, 255}\<close>.
\<close>

theorem getColorForValue_first_match:
  "((\<forall>j < length (thresholds cfg). threshold (thresholds cfg ! j) < a) \<longrightarrow>
      getColorForValue cfg (Num a) = \<lparr>r = Num 255, g = Num 255, b = Num 255\<rparr>) \<and>
   (i < length (thresholds cfg) \<and> a \<le> threshold (thresholds cfg ! i) \<and>
      (\<forall>j < i. threshold (thresholds cfg ! j) < a) \<longrightarrow>
      getColorForValue cfg (Num a) =
        (if smoothing cfg \<and> 0 < i
         then interpolateColors (color (thresholds cfg ! (i - 1))) (color (thresholds cfg ! i))
                (Num ((a - threshold (thresholds cfg ! (i - 1))) /
                      (threshold (thresholds cfg ! i) - threshold (thresholds cfg ! (i - 1)))))
         else hexToRgb (color (thresholds cfg ! i))))"
proof (intro conjI impI)
  assume none: "\<forall>j < length (thresholds cfg). threshold (thresholds cfg ! j) < a"
  have "colorScan cfg (Num a) 0 = colorScan cfg (Num a) (length (thresholds cfg))"
    by (rule colorScan_skip) (use none in \<open>auto simp: not_le\<close>)
  also have "\<dots> = hexToRgb ''#ffffff''"
    by (simp add: colorScan.simps [of cfg "Num a" "length (thresholds cfg)"])
  finally show "getColorForValue cfg (Num a) = \<lparr>r = Num 255, g = Num 255, b = Num 255\<rparr>"
    by (simp add: getColorForValue_def hexToRgb_white)
next
  assume hyp: "i < length (thresholds cfg) \<and> a \<le> threshold (thresholds cfg ! i) \<and>
      (\<forall>j < i. threshold (thresholds cfg ! j) < a)"
  have skip: "colorScan cfg (Num a) 0 = colorScan cfg (Num a) i"
    by (rule colorScan_skip) (use hyp in \<open>auto simp: not_le\<close>)
  show "getColorForValue cfg (Num a) =
        (if smoothing cfg \<and> 0 < i
         then interpolateColors (color (thresholds cfg ! (i - 1))) (color (thresholds cfg ! i))
                (Num ((a - threshold (thresholds cfg ! (i - 1))) /
                      (threshold (thresholds cfg ! i) - threshold (thresholds cfg ! (i - 1)))))
         else hexToRgb (color (thresholds cfg ! i)))"
  proof (cases "smoothing cfg \<and> 0 < i")
    case False
    with hyp show ?thesis
      by (auto simp add: getColorForValue_def skip colorScan.simps [of cfg "Num a" i])
  next
    case True
    then have "threshold (thresholds cfg ! (i - 1)) < a"
      using hyp by simp
    from ratio_Num [OF this] hyp True show ?thesis
      by (simp add: getColorForValue_def skip colorScan.simps [of cfg "Num a" i] Let_def)
  qed
qed

lemma nth_island:
  "islandThresholds ! 0 = \<lparr>threshold = 0.0, color = ''#4169E1''\<rparr>"
  "islandThresholds ! Suc 0 = \<lparr>threshold = 0.02, color = ''#EED6AF''\<rparr>"
  "islandThresholds ! 2 = \<lparr>threshold = 0.04, color = ''#D2B48C''\<rparr>"
  "islandThresholds ! 3 = \<lparr>threshold = 0.15, color = ''#228B22''\<rparr>"
  "length islandThresholds = 7"
  by (simp_all add: islandThresholds_def)

lemma all_less_3: "(\<forall>j<3::nat. P j) = (P 0 \<and> P (Suc 0) \<and> P 2)"
  by (simp add: numeral_3_eq_3 numeral_2_eq_2 less_Suc_eq) blast

lemma interpolate_sand_green:
  "interpolateColors ''#D2B48C'' ''#228B22'' (Num ((0.1 - 0.04) / (0.15 - 0.04)))
     = \<lparr>r = Num 114, g = Num 158, b = Num 82\<rparr>"
proof -
  have t: "\<bar>(0.1 - 0.04) / (0.15 - 0.04) :: real\<bar> \<le> 1"
    by simp
  obtain x1 y1 z1 x2 y2 z2 where
    h1: "hexToRgb ''#D2B48C'' = \<lparr>r = Num x1, g = Num y1, b = Num z1\<rparr>" and
    h2: "hexToRgb ''#228B22'' = \<lparr>r = Num x2, g = Num y2, b = Num z2\<rparr>" and
    e: "interpolateColors ''#D2B48C'' ''#228B22'' (Num ((0.1 - 0.04) / (0.15 - 0.04))) =
       \<lparr>r = math_round (Num (lerp x1 x2 ((0.1 - 0.04) / (0.15 - 0.04)))),
        g = math_round (Num (lerp y1 y2 ((0.1 - 0.04) / (0.15 - 0.04)))),
        b = math_round (Num (lerp z1 z2 ((0.1 - 0.04) / (0.15 - 0.04))))\<rparr>"
    using interpolateColors_exact [OF t] by blast
  have "x1 = 210 \<and> y1 = 180 \<and> z1 = 140"
    using h1 by (simp add: hexToRgb_def hexPair_def hexDigit_def)
  moreover have "x2 = 34 \<and> y2 = 139 \<and> z2 = 34"
    using h2 by (simp add: hexToRgb_def hexPair_def hexDigit_def)
  ultimately show ?thesis
    unfolding e by (simp add: lerp_def)
qed

text \<open>
  The first-match theorem at work: the single stop \<open>{0.5, #ff0000}\<close> and the value 0.9
  give white; in the initial configuration the value 0.1 falls to the fourth stop, whose
  colour is blended with the third stop's when smoothing is on and returned as it is when
  smoothing is off.
\<close>

theorem getColorForValue_first_match_witness:
  "getColorForValue (initialConfig\<lparr>thresholds := [\<lparr>threshold = 0.5, color = ''#ff0000''\<rparr>]\<rparr>)
     (Num 0.9) = \<lparr>r = Num 255, g = Num 255, b = Num 255\<rparr> \<and>
   getColorForValue initialConfig (Num 0.1) = \<lparr>r = Num 114, g = Num 158, b = Num 82\<rparr> \<and>
   getColorForValue (initialConfig\<lparr>smoothing := False\<rparr>) (Num 0.1) =
     \<lparr>r = Num 34, g = Num 139, b = Num 34\<rparr>"
proof -
  let ?one = "initialConfig\<lparr>thresholds := [\<lparr>threshold = 0.5, color = ''#ff0000''\<rparr>]\<rparr>"
  let ?stepped = "initialConfig\<lparr>smoothing := False\<rparr>"
  have h1: "\<forall>j < length (thresholds ?one). threshold (thresholds ?one ! j) < 0.9"
    by simp
  have w1: "getColorForValue ?one (Num 0.9) = \<lparr>r = Num 255, g = Num 255, b = Num 255\<rparr>"
    using getColorForValue_first_match [of ?one "0.9" 0] h1 by blast
  have ths: "thresholds initialConfig = islandThresholds"
      "thresholds ?stepped = islandThresholds"
    and sm: "smoothing initialConfig" "\<not> smoothing ?stepped"
    by (simp_all add: initialConfig_def)
  have h2: "3 < length (thresholds initialConfig) \<and>
      0.1 \<le> threshold (thresholds initialConfig ! 3) \<and>
      (\<forall>j<3. threshold (thresholds initialConfig ! j) < 0.1)"
    unfolding ths by (simp add: all_less_3 nth_island)
  have h3: "3 < length (thresholds ?stepped) \<and>
      0.1 \<le> threshold (thresholds ?stepped ! 3) \<and>
      (\<forall>j<3. threshold (thresholds ?stepped ! j) < 0.1)"
    unfolding ths by (simp add: all_less_3 nth_island)
  note smooth = getColorForValue_first_match
      [of initialConfig "0.1" 3, THEN conjunct2, rule_format, OF h2]
  note stepped = getColorForValue_first_match
      [of ?stepped "0.1" 3, THEN conjunct2, rule_format, OF h3]
  have "getColorForValue initialConfig (Num 0.1) =
      interpolateColors ''#D2B48C'' ''#228B22'' (Num ((0.1 - 0.04) / (0.15 - 0.04)))"
    unfolding smooth ths by (simp add: sm nth_island)
  then have w2: "getColorForValue initialConfig (Num 0.1) =
      \<lparr>r = Num 114, g = Num 158, b = Num 82\<rparr>"
    by (simp only: interpolate_sand_green)
  have "getColorForValue ?stepped (Num 0.1) = hexToRgb ''#228B22''"
    unfolding stepped ths by (simp add: sm nth_island)
  then have w3: "getColorForValue ?stepped (Num 0.1) = \<lparr>r = Num 34, g = Num 139, b = Num 34\<rparr>"
    by (simp add: hexToRgb_def hexPair_def hexDigit_def)
  from w1 w2 w3 show ?thesis
    by blast
qed










lemma midpoint_scan:
  "getColorForValue
     (cfg\<lparr>thresholds := [\<lparr>threshold = 0.0, color = ''#000000''\<rparr>,
                          \<lparr>threshold = 1.0, color = ''#ffffff''\<rparr>], smoothing := True\<rparr>)
     (Num 0.5) = interpolateColors ''#000000'' ''#ffffff'' (Num 0.5)"
  by (simp add: getColorForValue_def colorScan.simps jsub_def js_div_def)

lemma midpoint_blend:
  "interpolateColors ''#000000'' ''#ffffff'' (Num 0.5) = \<lparr>r = Num 128, g = Num 128, b = Num 128\<rparr>"
proof -
  have t: "\<bar>0.5 :: real\<bar> \<le> 1"
    by simp
  obtain x1 y1 z1 x2 y2 z2 where
    h1: "hexToRgb ''#000000'' = \<lparr>r = Num x1, g = Num y1, b = Num z1\<rparr>" and
    h2: "hexToRgb ''#ffffff'' = \<lparr>r = Num x2, g = Num y2, b = Num z2\<rparr>" and
    e: "interpolateColors ''#000000'' ''#ffffff'' (Num 0.5) =
       \<lparr>r = math_round (Num (lerp x1 x2 0.5)), g = math_round (Num (lerp y1 y2 0.5)),
        b = math_round (Num (lerp z1 z2 0.5))\<rparr>"
    using interpolateColors_exact [OF t] by blast
  have "x1 = 0 \<and> y1 = 0 \<and> z1 = 0"
    using h1 by (simp add: hexToRgb_def hexPair_def hexDigit_def)
  moreover have "x2 = 255 \<and> y2 = 255 \<and> z2 = 255"
    using h2 by (simp add: hexToRgb_def hexPair_def hexDigit_def)
  ultimately show ?thesis
    unfolding e by (simp add: lerp_def)
qed

text \<open>
  C5, as the code has it. With the stops \<open>{0.0, #000000}, {1.0, #ffffff}\<close> and smoothing
  on, the value 0.5 matches the second stop with ratio 0.5; each channel is
  \<^verbatim>\<open>Math.round(127.5)\<close>, and \<^verbatim>\<open>Math.round\<close> takes a half upwards: the colour is
  \<open>{128, 128, 128}\<close>.
\<close>

theorem midpoint_color_128:
  "getColorForValue
     (cfg\<lparr>thresholds := [\<lparr>threshold = 0.0, color = ''#000000''\<rparr>,
                          \<lparr>threshold = 1.0, color = ''#ffffff''\<rparr>], smoothing := True\<rparr>)
     (Num 0.5) = \<lparr>r = Num 128, g = Num 128, b = Num 128\<rparr>"
  by (simp only: midpoint_scan midpoint_blend)

text \<open>C5 as stated, with \<open>{127, 127, 127}\<close>, fails in the initial configuration.\<close>

theorem midpoint_color_not_127:
  "getColorForValue
     (initialConfig\<lparr>thresholds := [\<lparr>threshold = 0.0, color = ''#000000''\<rparr>,
                                    \<lparr>threshold = 1.0, color = ''#ffffff''\<rparr>],
                    smoothing := True\<rparr>)
     (Num 0.5) \<noteq> \<lparr>r = Num 127, g = Num 127, b = Num 127\<rparr>"
  unfolding midpoint_scan midpoint_blend by simp

section \<open>Masks\<close>

lemma centerDist_nonneg: "0 \<le> centerDist cfg x y"
  by (simp add: centerDist_def Let_def)

lemma maxGrad_nonneg: "0 \<le> maxGrad cfg"
  by (simp add: maxGrad_def Let_def)

text \<open>
  When width and height are both 0 the division is by zero: the gradient is \<^verbatim>\<open>NaN\<close> at
  the centre and \<open>-\<infinity>\<close> elsewhere, and the test \<^verbatim>\<open>circleGrad > 0\<close> fails.
\<close>

lemma circleGrad_degenerate: "maxGrad cfg = 0 \<Longrightarrow> \<not> js_gt (circleGrad cfg x y) (Num 0)"
  using centerDist_nonneg [of cfg x y]
  by (auto simp add: circleGrad_def js_div_def inf_times_def jsub_def Let_def)

lemma circleGrad_Num:
  "maxGrad cfg \<noteq> 0 \<Longrightarrow>
   circleGrad cfg x y = Num (1 - 2 * (centerDist cfg x y / maxGrad cfg))"
  by (simp add: circleGrad_def js_div_def jsub_def Let_def algebra_simps)

lemma maskedBy_Num:
  "maskedBy (Num v) (Num gr) k =
     Num (max 0 (min 1 (if 0 < v * gr then v * gr * k else v * gr)))"
  by (simp add: maskedBy_def Let_def)

lemma maskedBy_nonneg:
  assumes "0 \<le> v" "0 < gr"
  shows "maskedBy (Num v) (Num gr) k = Num (max 0 (min 1 (v * gr * k)))"
proof (cases "0 < v * gr")
  case True
  then show ?thesis
    by (simp add: maskedBy_Num)
next
  case False
  with assms have "v = 0"
    by (simp add: zero_less_mult_iff not_less)
  then show ?thesis
    by (simp add: maskedBy_Num)
qed

lemma clamp_mono:
  assumes "0 \<le> v" "g2 \<le> g1" "0 < g2"
  shows "max 0 (min 1 (v * g2 * k)) \<le> max 0 (min 1 (v * g1 * k :: real))"
proof (cases "0 \<le> k")
  case True
  have "v * g2 \<le> v * g1"
    using assms by (simp add: mult_left_mono)
  then have "v * g2 * k \<le> v * g1 * k"
    using True by (simp add: mult_right_mono)
  then show ?thesis
    by simp
next
  case False
  then have k: "k \<le> 0"
    by simp
  have "0 \<le> v * g2"
    using assms by simp
  then have "v * g2 * k \<le> 0"
    using k by (simp add: mult_nonneg_nonpos)
  then show ?thesis
    by simp
qed

lemma circle_result:
  assumes "mask cfg" "maskShape cfg = ''circle''" "0 \<le> v"
  shows "applyMask cfg x y (Num v) =
     (if maxGrad cfg \<noteq> 0 \<and> 0 < 1 - 2 * (centerDist cfg x y / maxGrad cfg)
      then Num (max 0 (min 1
             (v * (1 - 2 * (centerDist cfg x y / maxGrad cfg)) * maskContrast cfg)))
      else Num 0)"
proof (cases "maxGrad cfg = 0")
  case True
  with assms circleGrad_degenerate [OF True, of x y] show ?thesis
    by (simp add: applyMask_def)
next
  case False
  with assms show ?thesis
    by (simp add: applyMask_def circleGrad_Num maskedBy_nonneg)
qed

lemma circle_result_nonneg:
  assumes "mask cfg" "maskShape cfg = ''circle''" "0 \<le> v"
  shows "\<exists>a. 0 \<le> a \<and> applyMask cfg x y (Num v) = Num a"
  by (simp add: circle_result [OF assms])

text \<open>
  C6. With the circle mask on, a fixed value in \<open>[0, 1]\<close> and a fixed contrast, a pixel
  that is at least as far from the centre as another gets a masked value that is at most
  the other's (\<^verbatim>\<open><=\<close> on two numbers, neither of them \<^verbatim>\<open>NaN\<close>). A pixel whose distance
  from the centre is at least the maximal radius, the half diagonal \<^verbatim>\<open>maxGrad\<close>, gets 0
  whatever the value is, \<^verbatim>\<open>NaN\<close> included.
\<close>

theorem circle_mask_monotone:
  assumes "mask cfg" and "maskShape cfg = ''circle''"
  shows "(0 \<le> v \<and> v \<le> 1 \<and> centerDist cfg x1 y1 \<le> centerDist cfg x2 y2 \<longrightarrow>
           js_le (applyMask cfg x2 y2 (Num v)) (applyMask cfg x1 y1 (Num v))) \<and>
         (maxGrad cfg \<le> centerDist cfg x y \<longrightarrow> applyMask cfg x y w = Num 0)"
proof (intro conjI impI)
  assume h: "0 \<le> v \<and> v \<le> 1 \<and> centerDist cfg x1 y1 \<le> centerDist cfg x2 y2"
  then have v: "0 \<le> v" and d: "centerDist cfg x1 y1 \<le> centerDist cfg x2 y2"
    by simp_all
  define g1 where "g1 = 1 - 2 * (centerDist cfg x1 y1 / maxGrad cfg)"
  define g2 where "g2 = 1 - 2 * (centerDist cfg x2 y2 / maxGrad cfg)"
  show "js_le (applyMask cfg x2 y2 (Num v)) (applyMask cfg x1 y1 (Num v))"
  proof (cases "maxGrad cfg \<noteq> 0 \<and> 0 < g2")
    case False
    then have "applyMask cfg x2 y2 (Num v) = Num 0"
      unfolding g2_def circle_result [OF assms v] by (rule if_not_P)
    moreover obtain a where "0 \<le> a" "applyMask cfg x1 y1 (Num v) = Num a"
      using circle_result_nonneg [OF assms v] by blast
    ultimately show ?thesis
      by simp
  next
    case True
    then have m: "0 < maxGrad cfg"
      using maxGrad_nonneg [of cfg] by simp
    have "centerDist cfg x1 y1 / maxGrad cfg \<le> centerDist cfg x2 y2 / maxGrad cfg"
      using d m by (simp add: divide_right_mono)
    then have g: "g2 \<le> g1"
      by (simp add: g1_def g2_def)
    with True have pos: "maxGrad cfg \<noteq> 0 \<and> 0 < g1"
      by simp
    have r2: "applyMask cfg x2 y2 (Num v) = Num (max 0 (min 1 (v * g2 * maskContrast cfg)))"
      using True unfolding g2_def circle_result [OF assms v] by (rule if_P)
    have r1: "applyMask cfg x1 y1 (Num v) = Num (max 0 (min 1 (v * g1 * maskContrast cfg)))"
      using pos unfolding g1_def circle_result [OF assms v] by (rule if_P)
    from True have "0 < g2"
      by simp
    from clamp_mono [OF v g this] show ?thesis
      unfolding r1 r2 by simp
  qed
next
  assume far: "maxGrad cfg \<le> centerDist cfg x y"
  have "\<not> js_gt (circleGrad cfg x y) (Num 0)"
  proof (cases "maxGrad cfg = 0")
    case True
    then show ?thesis
      by (rule circleGrad_degenerate)
  next
    case False
    then have m: "0 < maxGrad cfg"
      using maxGrad_nonneg [of cfg] by simp
    with far have "1 \<le> centerDist cfg x y / maxGrad cfg"
      by (simp add: le_divide_eq)
    then show ?thesis
      by (simp add: circleGrad_Num [OF False])
  qed
  with assms show "applyMask cfg x y w = Num 0"
    by (simp add: applyMask_def)
qed

text \<open>
  In the initial configuration (400 by 400, circle, contrast 4) the corner pixel \<open>(0, 0)\<close>
  is exactly at the maximal radius: it gets 0, which is at most what the centre gets.
\<close>

theorem circle_mask_monotone_witness:
  "centerDist initialConfig 200 200 \<le> centerDist initialConfig 0 0 \<and>
   maxGrad initialConfig \<le> centerDist initialConfig 0 0 \<and>
   js_le (applyMask initialConfig 0 0 (Num (1 / 2)))
         (applyMask initialConfig 200 200 (Num (1 / 2))) \<and>
   applyMask initialConfig 0 0 (Num (1 / 2)) = Num 0"
proof -
  have m: "mask initialConfig" and c: "maskShape initialConfig = ''circle''"
    by (simp_all add: initialConfig_def)
  have d: "centerDist initialConfig 200 200 \<le> centerDist initialConfig 0 0"
    by (simp add: centerDist_def initialConfig_def Let_def)
  have f: "maxGrad initialConfig \<le> centerDist initialConfig 0 0"
    by (simp add: centerDist_def maxGrad_def initialConfig_def Let_def)
  from circle_mask_monotone [OF m c, of "1 / 2" 200 200 0 0 0 0 "Num (1 / 2)"] d f
  show ?thesis
    by force
qed

lemma masked_branch:
  assumes "0 < v * max 0 gr"
  shows "js_gt (Num gr) (Num 0) \<and>
         maskedBy (Num v) (Num gr) k = Num (max 0 (min 1 (v * max 0 gr * k)))"
proof -
  have gr: "0 < gr"
  proof (rule ccontr)
    assume "\<not> 0 < gr"
    then have "max 0 gr = 0"
      by simp
    with assms show False
      by simp
  qed
  then have "max 0 gr = gr"
    by simp
  with assms gr show ?thesis
    by (simp add: maskedBy_Num)
qed

text \<open>
  C7. With the mask off \<^verbatim>\<open>applyMask\<close> returns its input. With the mask on, let \<open>g\<close> be the
  shape's gradient cut off below at 0 (the circle's gradient is negative outside the disc
  that the source keeps, the other two are cut off by the source itself). When the product
  \<open>value * g\<close> is positive, the result is that product times the contrast for the circle and
  times \<open>contrast * 0.75\<close> for the square and the hexagon, clamped to \<open>[0, 1]\<close>.
\<close>

theorem applyMask_contrast:
  "(\<not> mask cfg \<longrightarrow> applyMask cfg x y w = w) \<and>
   (mask cfg \<and> maskShape cfg = ''circle'' \<and> circleGrad cfg x y = Num gr \<and>
      0 < v * max 0 gr \<longrightarrow>
      applyMask cfg x y (Num v) = Num (max 0 (min 1 (v * max 0 gr * maskContrast cfg)))) \<and>
   (mask cfg \<and> maskShape cfg = ''square'' \<and> squareGrad cfg x y = Num gr \<and>
      0 < v * max 0 gr \<longrightarrow>
      applyMask cfg x y (Num v) =
        Num (max 0 (min 1 (v * max 0 gr * (maskContrast cfg * 0.75))))) \<and>
   (mask cfg \<and> maskShape cfg = ''hexagon'' \<and> hexGrad cfg x y = Num gr \<and>
      0 < v * max 0 gr \<longrightarrow>
      applyMask cfg x y (Num v) =
        Num (max 0 (min 1 (v * max 0 gr * (maskContrast cfg * 0.75)))))"
proof (intro conjI impI)
  assume "\<not> mask cfg"
  then show "applyMask cfg x y w = w"
    by (simp add: applyMask_def)
next
  assume h: "mask cfg \<and> maskShape cfg = ''circle'' \<and> circleGrad cfg x y = Num gr \<and>
      0 < v * max 0 gr"
  then have "0 < v * max 0 gr"
    by simp
  from masked_branch [OF this, of "maskContrast cfg"] h
  show "applyMask cfg x y (Num v) = Num (max 0 (min 1 (v * max 0 gr * maskContrast cfg)))"
    by (simp add: applyMask_def)
next
  assume h: "mask cfg \<and> maskShape cfg = ''square'' \<and> squareGrad cfg x y = Num gr \<and>
      0 < v * max 0 gr"
  then have "0 < v * max 0 gr"
    by simp
  from masked_branch [OF this, of "maskContrast cfg * 0.75"] h
  show "applyMask cfg x y (Num v) =
      Num (max 0 (min 1 (v * max 0 gr * (maskContrast cfg * 0.75))))"
    by (simp add: applyMask_def)
next
  assume h: "mask cfg \<and> maskShape cfg = ''hexagon'' \<and> hexGrad cfg x y = Num gr \<and>
      0 < v * max 0 gr"
  then have "0 < v * max 0 gr"
    by simp
  from masked_branch [OF this, of "maskContrast cfg * 0.75"] h
  show "applyMask cfg x y (Num v) =
      Num (max 0 (min 1 (v * max 0 gr * (maskContrast cfg * 0.75))))"
    by (simp add: applyMask_def)
qed

lemma circleGrad_centre: "circleGrad initialConfig 200 200 = Num 1"
  by (simp add: circleGrad_def centerDist_def maxGrad_def initialConfig_def js_div_def
      jsub_def Let_def)

lemma squareGrad_half:
  "squareGrad (initialConfig\<lparr>maskShape := ''square''\<rparr>) 100 300 = Num (1 / 2)"
  by (simp add: squareGrad_def initialConfig_def js_div_def jsub_def Let_def)

lemma hexGrad_half:
  "hexGrad (initialConfig\<lparr>maskShape := ''hexagon''\<rparr>) 100 200 = Num (1 / 2)"
  by (simp add: hexGrad_def initialConfig_def js_div_def jsub_def Let_def)

text \<open>
  The value 0.1 with contrast 4: unchanged with the mask off, 0.4 at the centre of the
  circle, and 0.15 where the square or the hexagon has gradient one half.
\<close>

theorem applyMask_contrast_witness:
  "applyMask (initialConfig\<lparr>mask := False\<rparr>) 0 0 (Num (1 / 10)) = Num (1 / 10) \<and>
   applyMask initialConfig 200 200 (Num (1 / 10)) = Num (4 / 10) \<and>
   applyMask (initialConfig\<lparr>maskShape := ''square''\<rparr>) 100 300 (Num (1 / 10)) =
     Num (15 / 100) \<and>
   applyMask (initialConfig\<lparr>maskShape := ''hexagon''\<rparr>) 100 200 (Num (1 / 10)) =
     Num (15 / 100)"
  using applyMask_contrast [of "initialConfig\<lparr>mask := False\<rparr>" 0 0 "Num (1 / 10)" 1 1]
    applyMask_contrast [of initialConfig 200 200 NaN 1 "1 / 10"]
    applyMask_contrast [of "initialConfig\<lparr>maskShape := ''square''\<rparr>" 100 300 NaN
      "1 / 2" "1 / 10"]
    applyMask_contrast [of "initialConfig\<lparr>maskShape := ''hexagon''\<rparr>" 100 200 NaN
      "1 / 2" "1 / 10"]
    circleGrad_centre squareGrad_half hexGrad_half
  by (simp add: initialConfig_def)

section \<open>The pixel loop\<close>

text \<open>
  C8. For every configuration and every pixel, the value that \<^verbatim>\<open>exportMap\<close> computes,
  the noise sample at \<open>(x / scale, y / scale + time)\<close> with the configuration's seed,
  remapped by \<open>(v + 1) / 2\<close> and masked, is the value that \<^verbatim>\<open>draw\<close> computes at that pixel
  before it selects a colour and shades it; so the exported grid is the grid of the drawn
  values.
\<close>

theorem exportMap_matches_draw:
  "exportMapValue cfg x y = drawValue cfg x y \<and>
   exportMap cfg = map (\<lambda>y. map (\<lambda>x. drawValue cfg x y) [0 ..< nat (width cfg)])
                       [0 ..< nat (height cfg)]"
  by (simp add: exportMap_def exportMapValue_def drawValue_def)

lemma perlinJ_time: "perlinJ (cfg\<lparr>time := t\<rparr>) p q sd = perlinJ cfg p q sd"
  by (simp add: perlinJ_def octaveCount_def)

text \<open>The samples of the pixel \<open>(50, 100)\<close> at the scale 50: every step is exact.\<close>

lemma range_10: "200000 * (10 :: real) < overflowAt"
  by (rule range_below) (rule ten_le_300)

lemma perlinJ_small:
  assumes "\<bar>x\<bar> \<le> 10" "\<bar>y\<bar> \<le> 10"
  shows "perlinJ cfg (Num x) (Num y) (Num 0) = Num (perlin cfg x y 0)"
  by (rule perlinJ_exact [OF assms _ _ range_10]) simp_all

lemma pixel_50_100:
  "odiv (Num (real 50)) (Num 50) = Num 1" "odiv (Num (real 100)) (Num 50) = Num 2"
  "oadd (Num 1) (Num 0.01) = Num 1.01" "oadd (Num 2) (Num 0.01) = Num 2.01"
  "oadd (Num 2) (Num 1) = Num 3"
proof -
  have "odiv (Num 50) (Num 50) = Num (50 / 50)" "odiv (Num 100) (Num 50) = Num (100 / 50)"
    by (rule odiv_Num, simp, rule small_in_range, simp)+
  then show "odiv (Num (real 50)) (Num 50) = Num 1" "odiv (Num (real 100)) (Num 50) = Num 2"
    by simp_all
  have "oadd (Num 1) (Num 0.01) = Num (1 + 0.01)" "oadd (Num 2) (Num 0.01) = Num (2 + 0.01)"
    "oadd (Num 2) (Num 1) = Num (2 + 1)"
    by (rule oadd_Num, rule small_in_range, simp)+
  then show "oadd (Num 1) (Num 0.01) = Num 1.01" "oadd (Num 2) (Num 0.01) = Num 2.01"
    "oadd (Num 2) (Num 1) = Num 3"
    by simp_all
qed

lemma drawNext_50_100:
  "drawNext (initialConfig\<lparr>time := 1\<rparr>) 50 100 =
     Num ((perlin (initialConfig\<lparr>time := 1\<rparr>) 1.01 2.01 0 + 1) / 2)"
proof -
  have sc: "scale (initialConfig\<lparr>time := 1\<rparr>) = 50" "seed (initialConfig\<lparr>time := 1\<rparr>) = Num 0"
    by (simp_all add: initialConfig_def)
  have p: "perlinJ (initialConfig\<lparr>time := 1\<rparr>) (Num 1.01) (Num 2.01) (Num 0) =
      Num (perlin (initialConfig\<lparr>time := 1\<rparr>) 1.01 2.01 0)"
    by (rule perlinJ_small) simp_all
  show ?thesis
    unfolding drawNext_def Let_def sc pixel_50_100 p by (simp add: js_div_def)
qed

lemma drawValue_50_100:
  "drawValue (initialConfig\<lparr>time := 1\<rparr>) 50 100 =
     applyMask (initialConfig\<lparr>time := 1\<rparr>) 50 100
       (Num ((perlin (initialConfig\<lparr>time := 1\<rparr>) 1 3 0 + 1) / 2))"
proof -
  have sc: "scale (initialConfig\<lparr>time := 1\<rparr>) = 50" "seed (initialConfig\<lparr>time := 1\<rparr>) = Num 0"
    "time (initialConfig\<lparr>time := 1\<rparr>) = 1"
    by (simp_all add: initialConfig_def)
  have p: "perlinJ (initialConfig\<lparr>time := 1\<rparr>) (Num 1) (Num 3) (Num 0) =
      Num (perlin (initialConfig\<lparr>time := 1\<rparr>) 1 3 0)"
    by (rule perlinJ_small) simp_all
  have v: "jdiv (jadd (Num (perlin (initialConfig\<lparr>time := 1\<rparr>) 1 3 0)) (Num 1)) (Num 2) =
      Num ((perlin (initialConfig\<lparr>time := 1\<rparr>) 1 3 0 + 1) / 2)"
    by (simp add: js_div_def)
  show ?thesis
    unfolding drawValue_def Let_def sc pixel_50_100 p v by simp
qed

text \<open>
  C2. The second sample of the shading does not take the time offset: it is read at
  \<open>(x / scale + 0.01, y / scale + 0.01)\<close>, while the main sample is read at
  \<open>(x / scale, y / scale + time)\<close>. It is therefore the same for every value of
  \<^verbatim>\<open>config.time\<close>. In the initial configuration with \<open>time = 1\<close>, at the pixel
  \<open>(50, 100)\<close>, the main sample is the noise at \<open>(1, 3)\<close> and the second one the noise at
  \<open>(1.01, 2.01)\<close>, not at \<open>(1.01, 3.01)\<close>.
\<close>

theorem shading_sample_ignores_time:
  "drawNext (cfg\<lparr>time := t\<rparr>) x y = drawNext cfg x y \<and>
   drawNext (initialConfig\<lparr>time := 1\<rparr>) 50 100 =
     Num ((perlin (initialConfig\<lparr>time := 1\<rparr>) 1.01 2.01 0 + 1) / 2) \<and>
   drawValue (initialConfig\<lparr>time := 1\<rparr>) 50 100 =
     applyMask (initialConfig\<lparr>time := 1\<rparr>) 50 100
       (Num ((perlin (initialConfig\<lparr>time := 1\<rparr>) 1 3 0 + 1) / 2))"
proof (intro conjI)
  show "drawNext (cfg\<lparr>time := t\<rparr>) x y = drawNext cfg x y"
    by (simp add: drawNext_def perlinJ_time)
qed (rule drawNext_50_100, rule drawValue_50_100)

section \<open>The image buffer\<close>

lemma length_blocks:
  assumes "\<And>k. k < n \<Longrightarrow> length (f k) = m"
  shows "length (concat (map f [0 ..< n])) = n * m"
  using assms by (induction n) simp_all

lemma drawPixel_length: "length (drawPixel cfg x y) = 4"
  by (simp add: drawPixel_def Let_def)

lemma draw_row_length:
  "length (concat (map (\<lambda>x. drawPixel cfg x y) [0 ..< w])) = w * 4"
  by (rule length_blocks) (simp add: drawPixel_length)

text \<open>On a canvas of positive size the buffer comes back, four bytes for each pixel.\<close>

lemma draw_length:
  assumes "0 < cw" "0 < ch"
  shows "\<exists>bs. draw cfg cw ch = Inr bs \<and> length bs = 4 * (cw * ch)"
proof -
  have "length (concat (map (\<lambda>y. concat (map (\<lambda>x. drawPixel cfg x y) [0 ..< cw])) [0 ..< ch]))
      = ch * (cw * 4)"
    by (rule length_blocks) (simp add: draw_row_length)
  then show ?thesis
    using assms by (simp add: draw_def algebra_simps)
qed

lemma concat_replicate_blocks:
  "concat (replicate m (concat (replicate n c))) = concat (replicate (n * m) c)"
  by (induction m) (simp_all add: replicate_add)

text \<open>When every pixel gets the same four bytes, the buffer repeats them.\<close>

lemma draw_constant:
  assumes "\<And>x y. drawPixel cfg x y = c" "0 < cw" "0 < ch"
  shows "draw cfg cw ch = Inr (concat (replicate (cw * ch) c))"
proof -
  have "concat (map (\<lambda>y. concat (map (\<lambda>x. drawPixel cfg x y) [0 ..< cw])) [0 ..< ch]) =
      concat (replicate ch (concat (replicate cw c)))"
    by (simp add: assms(1) map_replicate_const)
  then show ?thesis
    using assms(2,3) by (simp add: draw_def concat_replicate_blocks)
qed

section \<open>Configurations that are not valid\<close>

lemma shadeChannel_NaN: "shadeChannel ch NaN = NaN"
  by (simp add: shadeChannel_def jadd_NaN)

text \<open>With \<open>scale = 0\<close> the quotient \<open>x / scale\<close> is \<^verbatim>\<open>NaN\<close> or an infinity.\<close>

lemma odiv_zero: "\<not> is_finite (odiv (Num a) (Num 0))"
  by (simp add: odiv_def js_div_def inf_times_def)

lemma remap_NaN: "jdiv (jadd NaN (Num 1)) (Num 2) = NaN"
  by simp

lemma drawNext_scale0:
  assumes "scale cfg = 0"
  shows "drawNext cfg x y = NaN"
proof -
  have "\<not> is_finite (oadd (odiv (Num (real x)) (Num 0)) (Num 0.01))"
    by (rule oadd_not_finite_left) (rule odiv_zero)
  then have "perlinJ cfg (oadd (odiv (Num (real x)) (Num 0)) (Num 0.01))
      (oadd (odiv (Num (real y)) (Num 0)) (Num 0.01)) (seed cfg) = NaN"
    by (rule perlinJ_coordinate)
  then show ?thesis
    unfolding drawNext_def Let_def assms by (simp only: remap_NaN)
qed

text \<open>A seed that is \<^verbatim>\<open>NaN\<close> or infinite makes every sample \<^verbatim>\<open>NaN\<close>.\<close>

lemma drawNext_seed:
  assumes "\<not> is_finite (seed cfg)"
  shows "drawNext cfg x y = NaN"
proof -
  have "\<not> is_finite (omul (seed cfg) (Num 9999))"
    by (rule seed_not_finite [OF assms])
  then have "\<And>p q. perlinJ cfg p q (seed cfg) = NaN"
    by (rule perlinJ_seed)
  then show ?thesis
    unfolding drawNext_def Let_def by (simp only: remap_NaN)
qed

text \<open>
  The shade is then \<^verbatim>\<open>NaN\<close>, every channel is \<^verbatim>\<open>NaN\<close> after \<^verbatim>\<open>Math.min\<close> and
  \<^verbatim>\<open>Math.max\<close>, and the image data stores 0 for it.
\<close>

lemma drawPixel_shade_NaN:
  assumes "drawNext cfg x y = NaN" "shading cfg"
  shows "drawPixel cfg x y = [0, 0, 0, 255]"
  using assms
  by (simp add: drawPixel_def drawColor_def Let_def jsub_def jadd_NaN shadeChannel_NaN)

lemma colorScan_empty: "thresholds cfg = [] \<Longrightarrow> colorScan cfg v i = hexToRgb ''#ffffff''"
  by (simp add: colorScan.simps [of cfg v i])

lemma drawPixel_no_stops:
  assumes "thresholds cfg = []" "\<not> grayscale cfg" "\<not> shading cfg"
  shows "drawPixel cfg x y = [255, 255, 255, 255]"
  using assms
  by (simp add: drawPixel_def drawColor_def Let_def getColorForValue_def colorScan_empty
      hexToRgb_white)

text \<open>
  The pixel \<open>(0, 0)\<close> at the scale \<open>-50\<close>, with the mask and the shading off and grayscale
  on: the sample is the one at the origin, the value is 0.5 and the byte 128.
\<close>

lemma drawPixel_negative_scale:
  "drawPixel (initialConfig\<lparr>width := 1, height := 1, scale := - 50, grayscale := True,
                            shading := False, mask := False\<rparr>) 0 0 = [128, 128, 128, 255]"
proof -
  let ?N = "initialConfig\<lparr>width := 1, height := 1, scale := - 50, grayscale := True,
                            shading := False, mask := False\<rparr>"
  have f: "scale ?N = - 50" "seed ?N = Num 0" "time ?N = 0" "\<not> mask ?N" "grayscale ?N"
    "\<not> shading ?N"
    by (simp_all add: initialConfig_def)
  have q: "odiv (Num (real 0)) (Num (- 50)) = Num 0"
    using odiv_Num [of "- 50" 0] small_in_range [of 0] by simp
  have s: "oadd (Num 0) (Num 0) = Num 0"
    using oadd_Num [of 0 0] small_in_range [of 0] by simp
  have "perlinJ ?N (Num 0) (Num 0) (Num 0) = Num (perlin ?N 0 0 0)"
    by (rule perlinJ_small) simp_all
  moreover have "perlin ?N 0 0 0 = 0"
    using perlin_lattice [of ?N 0 0 0] by simp
  ultimately have p: "perlinJ ?N (Num 0) (Num 0) (Num 0) = Num 0"
    by simp
  have v: "drawValue ?N 0 0 = Num (1 / 2)"
    unfolding drawValue_def Let_def f q s p applyMask_def by (simp add: js_div_def)
  show ?thesis
    unfolding drawPixel_def drawColor_def Let_def v using f(5,6) by simp
qed

lemma upt_two: "[0 ..< 2] = [0, 1 :: nat]"
  by (simp add: upt_rec numeral_2_eq_2)

text \<open>
  C9 as stated fails. The scale 0 is not rejected: the image of two pixels comes out, black.
  Nor is the scale \<open>-50\<close>: the image of one pixel comes out, grey. Nor is the empty stop
  list: the image comes out, white. Nor is the seed \<^verbatim>\<open>NaN\<close>: the image comes out, black.
\<close>

theorem draw_accepts_invalid:
  "scale (initialConfig\<lparr>width := 2, height := 1, scale := 0\<rparr>) \<le> 0 \<and>
   draw (initialConfig\<lparr>width := 2, height := 1, scale := 0\<rparr>) 2 1 =
     Inr [0, 0, 0, 255, 0, 0, 0, 255] \<and>
   scale (initialConfig\<lparr>width := 1, height := 1, scale := - 50, grayscale := True,
                        shading := False, mask := False\<rparr>) \<le> 0 \<and>
   draw (initialConfig\<lparr>width := 1, height := 1, scale := - 50, grayscale := True,
                       shading := False, mask := False\<rparr>) 1 1 = Inr [128, 128, 128, 255] \<and>
   thresholds (initialConfig\<lparr>width := 1, height := 2, shading := False, thresholds := []\<rparr>)
     = [] \<and>
   draw (initialConfig\<lparr>width := 1, height := 2, shading := False, thresholds := []\<rparr>) 1 2 =
     Inr [255, 255, 255, 255, 255, 255, 255, 255] \<and>
   \<not> is_finite (seed (initialConfig\<lparr>width := 1, height := 1, seed := NaN\<rparr>)) \<and>
   draw (initialConfig\<lparr>width := 1, height := 1, seed := NaN\<rparr>) 1 1 = Inr [0, 0, 0, 255]"
proof -
  let ?A = "initialConfig\<lparr>width := 2, height := 1, scale := 0\<rparr>"
  let ?N = "initialConfig\<lparr>width := 1, height := 1, scale := - 50, grayscale := True,
                            shading := False, mask := False\<rparr>"
  let ?B = "initialConfig\<lparr>width := 1, height := 2, shading := False, thresholds := []\<rparr>"
  let ?C = "initialConfig\<lparr>width := 1, height := 1, seed := NaN\<rparr>"
  have a: "drawPixel ?A x y = [0, 0, 0, 255]" for x y
    by (rule drawPixel_shade_NaN, rule drawNext_scale0) (simp_all add: initialConfig_def)
  have b: "drawPixel ?B x y = [255, 255, 255, 255]" for x y
    by (rule drawPixel_no_stops) (simp_all add: initialConfig_def)
  have c: "drawPixel ?C x y = [0, 0, 0, 255]" for x y
    by (rule drawPixel_shade_NaN, rule drawNext_seed) (simp_all add: initialConfig_def)
  have "draw ?A 2 1 = Inr [0, 0, 0, 255, 0, 0, 0, 255]"
    unfolding draw_def a by (simp add: upt_two)
  moreover have "draw ?N 1 1 = Inr [128, 128, 128, 255]"
    unfolding draw_def by (simp add: drawPixel_negative_scale)
  moreover have "draw ?B 1 2 = Inr [255, 255, 255, 255, 255, 255, 255, 255]"
    unfolding draw_def b by (simp add: upt_two)
  moreover have "draw ?C 1 1 = Inr [0, 0, 0, 255]"
    unfolding draw_def c by simp
  moreover have "scale ?A \<le> 0" "scale ?N \<le> 0" "thresholds ?B = []" "\<not> is_finite (seed ?C)"
    by (simp_all add: initialConfig_def)
  ultimately show ?thesis
    by blast
qed

text \<open>
  C9, as the code has it. \<^verbatim>\<open>draw\<close> validates nothing. The one failure is the browser's:
  on a canvas of width or height 0, \<^verbatim>\<open>createImageData\<close> raises \<^verbatim>\<open>IndexSizeError\<close>. On a
  canvas of positive width and height \<^verbatim>\<open>draw\<close> returns the buffer of
  \<open>4 * width * height\<close> bytes for every configuration, whatever the scale, the seed and the
  stop list are. With \<open>scale = 0\<close>, or with a seed that is \<^verbatim>\<open>NaN\<close> or infinite, and the
  shading on, every pixel is stored as opaque black. With an empty stop list, and grayscale
  and shading off, every pixel is the white of the fallback.
\<close>

theorem draw_without_validation:
  "(0 < cw \<and> 0 < ch \<longrightarrow> (\<exists>bs. draw cfg cw ch = Inr bs \<and> length bs = 4 * (cw * ch))) \<and>
   (0 < cw \<and> 0 < ch \<and> shading cfg \<and> (scale cfg = 0 \<or> \<not> is_finite (seed cfg)) \<longrightarrow>
      draw cfg cw ch = Inr (concat (replicate (cw * ch) [0, 0, 0, 255]))) \<and>
   (0 < cw \<and> 0 < ch \<and> thresholds cfg = [] \<and> \<not> grayscale cfg \<and> \<not> shading cfg \<longrightarrow>
      draw cfg cw ch = Inr (concat (replicate (cw * ch) [255, 255, 255, 255]))) \<and>
   (cw = 0 \<or> ch = 0 \<longrightarrow> draw cfg cw ch = Inl IndexSizeError)"
proof (intro conjI impI)
  assume "0 < cw \<and> 0 < ch"
  then show "\<exists>bs. draw cfg cw ch = Inr bs \<and> length bs = 4 * (cw * ch)"
    by (simp add: draw_length)
next
  assume h: "0 < cw \<and> 0 < ch \<and> shading cfg \<and> (scale cfg = 0 \<or> \<not> is_finite (seed cfg))"
  then have "drawNext cfg x y = NaN" for x y
    using drawNext_scale0 drawNext_seed by blast
  then have "drawPixel cfg x y = [0, 0, 0, 255]" for x y
    using h by (simp add: drawPixel_shade_NaN)
  then show "draw cfg cw ch = Inr (concat (replicate (cw * ch) [0, 0, 0, 255]))"
    using h by (intro draw_constant) simp_all
next
  assume h: "0 < cw \<and> 0 < ch \<and> thresholds cfg = [] \<and> \<not> grayscale cfg \<and> \<not> shading cfg"
  then have "drawPixel cfg x y = [255, 255, 255, 255]" for x y
    by (simp add: drawPixel_no_stops)
  then show "draw cfg cw ch = Inr (concat (replicate (cw * ch) [255, 255, 255, 255]))"
    using h by (intro draw_constant) simp_all
next
  assume "cw = 0 \<or> ch = 0"
  then show "draw cfg cw ch = Inl IndexSizeError"
    by (simp add: draw_def)
qed

text \<open>
  The initial configuration, 400 by 400, with the scale \<open>-50\<close>; three pixels in a row with
  the scale 0, and with an infinite seed; two pixels with the stop list emptied and the
  shading off; and the canvas of width 0.
\<close>

theorem draw_without_validation_witness:
  "(\<exists>bs. draw (initialConfig\<lparr>scale := - 50\<rparr>) 400 400 = Inr bs \<and> length bs = 640000) \<and>
   draw (initialConfig\<lparr>width := 3, height := 1, scale := 0\<rparr>) 3 1 =
     Inr [0, 0, 0, 255, 0, 0, 0, 255, 0, 0, 0, 255] \<and>
   draw (initialConfig\<lparr>width := 3, height := 1, seed := PInf\<rparr>) 3 1 =
     Inr [0, 0, 0, 255, 0, 0, 0, 255, 0, 0, 0, 255] \<and>
   draw (initialConfig\<lparr>width := 2, height := 1, shading := False, thresholds := []\<rparr>) 2 1 =
     Inr [255, 255, 255, 255, 255, 255, 255, 255] \<and>
   draw (initialConfig\<lparr>width := 0\<rparr>) 0 400 = Inl IndexSizeError"
proof -
  let ?A = "initialConfig\<lparr>width := 3, height := 1, scale := 0\<rparr>"
  let ?S = "initialConfig\<lparr>width := 3, height := 1, seed := PInf\<rparr>"
  let ?B = "initialConfig\<lparr>width := 2, height := 1, shading := False, thresholds := []\<rparr>"
  have rep: "concat (replicate (3 * 1) [k, l, m, n]) = [k, l, m, n, k, l, m, n, k, l, m, n]"
    "concat (replicate (2 * 1) [k, l, m, n]) = [k, l, m, n, k, l, m, n]" for k l m n :: nat
    by (simp_all add: numeral_3_eq_3 numeral_2_eq_2)
  have ha: "0 < (3 :: nat) \<and> 0 < (1 :: nat) \<and> shading ?A \<and>
      (scale ?A = 0 \<or> \<not> is_finite (seed ?A))"
    by (simp add: initialConfig_def)
  have hs: "0 < (3 :: nat) \<and> 0 < (1 :: nat) \<and> shading ?S \<and>
      (scale ?S = 0 \<or> \<not> is_finite (seed ?S))"
    by (simp add: initialConfig_def)
  have hb: "0 < (2 :: nat) \<and> 0 < (1 :: nat) \<and> thresholds ?B = [] \<and> \<not> grayscale ?B \<and>
      \<not> shading ?B"
    by (simp add: initialConfig_def)
  have w1: "\<exists>bs. draw (initialConfig\<lparr>scale := - 50\<rparr>) 400 400 = Inr bs \<and> length bs = 640000"
    using draw_without_validation [of 400 400 "initialConfig\<lparr>scale := - 50\<rparr>", THEN conjunct1]
    by simp
  have w2: "draw ?A 3 1 = Inr [0, 0, 0, 255, 0, 0, 0, 255, 0, 0, 0, 255]"
    using draw_without_validation
      [of 3 1 ?A, THEN conjunct2, THEN conjunct1, rule_format, OF ha]
    by (simp only: rep)
  have w3: "draw ?S 3 1 = Inr [0, 0, 0, 255, 0, 0, 0, 255, 0, 0, 0, 255]"
    using draw_without_validation
      [of 3 1 ?S, THEN conjunct2, THEN conjunct1, rule_format, OF hs]
    by (simp only: rep)
  have w4: "draw ?B 2 1 = Inr [255, 255, 255, 255, 255, 255, 255, 255]"
    using draw_without_validation
      [of 2 1 ?B, THEN conjunct2, THEN conjunct2, THEN conjunct1, rule_format, OF hb]
    by (simp only: rep)
  have w5: "draw (initialConfig\<lparr>width := 0\<rparr>) 0 400 = Inl IndexSizeError"
    using draw_without_validation [of 0 400 "initialConfig\<lparr>width := 0\<rparr>"] by simp
  from w1 w2 w3 w4 w5 show ?thesis
    by blast
qed

end
